theory Spec2Isabelle
  imports Main "HOL-Library.Word"
begin

section \<open>Data model\<close>

text \<open>
  The downloader package (src/downloader/downloader.go) works on the catalog types of
  package youtube: a \<open>Format\<close> (one stream variant), a \<open>FormatList\<close> (a Go slice of
  formats) and a \<open>Video\<close>. The fields below are the ones the downloader reads
  (\<open>format.MimeType\<close>, \<open>format.Quality\<close>, \<open>videoFormat.QualityLabel\<close>, \<open>v.ID\<close>,
  \<open>v.Title\<close>, \<open>v.Formats\<close>) together with the itag, the audio-channel count and a
  bitrate, which the catalog methods work on. Go's \<open>int\<close> is modelled as \<open>int\<close>: no
  arithmetic is done on these fields, they are only compared.
\<close>

type_synonym byte = "8 word"

record format =
  ItagNo :: int
  MimeType :: string
  Quality :: string
  QualityLabel :: string
  AudioChannels :: int
  Bitrate :: int

type_synonym FormatList = "format list"

record video =
  ID :: string
  Title :: string
  Formats :: FormatList

text \<open>
  Go errors as values. \<open>Errorf\<close> is an error made by \<open>fmt.Errorf\<close>, carrying its
  message. \<open>ExitError\<close> is \<open>*exec.ExitError\<close> (the command started and exited with the
  given nonzero status), \<open>ExecError\<close> is \<open>*exec.Error\<close> (the named executable could not
  be found or started). \<open>OSError\<close> stands for any error of the file system or the
  network, \<open>ErrShortWrite\<close> is \<open>io.ErrShortWrite\<close>.
\<close>

datatype error =
    Errorf string
  | ExitError int
  | ExecError string
  | OSError string
  | ErrShortWrite

section \<open>Catalog methods of package youtube\<close>

text \<open>
  The methods \<open>Type\<close>, \<open>AudioChannels\<close>, \<open>Quality\<close>, \<open>Sort\<close> and \<open>FindByItag\<close> of
  \<open>youtube.FormatList\<close> are called by the downloader and are not under src/. Each is
  modelled from what the spec says of it. What makes a MIME type belong to a class, what
  makes a format match a quality, and the order of the sort are not given by the spec:
  they are the parameters \<open>inClass\<close>, \<open>qmatch\<close> and \<open>before\<close>.
\<close>

text \<open>
  Modelled from the spec: \<open>FormatList.Type\<close> is not under src/. The spec has it "narrow
  the catalog to that MIME class" and return a new list ("filtering returns a new list;
  original catalog remains intact").
\<close>

definition FormatList_Type :: "(string \<Rightarrow> string \<Rightarrow> bool) \<Rightarrow> FormatList \<Rightarrow> string \<Rightarrow> FormatList" where
  "FormatList_Type inClass list t = filter (\<lambda>f. inClass (MimeType f) t) list"

text \<open>
  Modelled from the spec: \<open>FormatList.AudioChannels\<close> is not under src/. The spec has
  it keep the formats with the given audio-channel count ("filtered to the video class
  and audio-channel count 0").
\<close>

definition FormatList_AudioChannels :: "FormatList \<Rightarrow> int \<Rightarrow> FormatList" where
  "FormatList_AudioChannels list n = filter (\<lambda>f. AudioChannels f = n) list"

text \<open>
  Modelled from the spec: \<open>FormatList.Quality\<close> is not under src/. The spec has it
  "further filter videoCandidates by exact match" with the quality.
\<close>

definition FormatList_Quality :: "(format \<Rightarrow> string \<Rightarrow> bool) \<Rightarrow> FormatList \<Rightarrow> string \<Rightarrow> FormatList" where
  "FormatList_Quality qmatch list quality = filter (\<lambda>f. qmatch f quality) list"

text \<open>
  Modelled from the spec: \<open>FormatList.Sort\<close> is not under src/. The spec has it "sort
  each candidate set by a deterministic total order favoring higher bitrate/resolution".
  The model is a stable insertion sort: an element is placed before the first element
  that does not come strictly before it, so formats that the order does not tell apart
  keep the order they had in the list.
\<close>

fun sortInsert :: "(format \<Rightarrow> format \<Rightarrow> bool) \<Rightarrow> format \<Rightarrow> FormatList \<Rightarrow> FormatList" where
  "sortInsert before x [] = [x]"
| "sortInsert before x (y # ys) =
     (if before y x then y # sortInsert before x ys else x # y # ys)"

definition FormatList_Sort :: "(format \<Rightarrow> format \<Rightarrow> bool) \<Rightarrow> FormatList \<Rightarrow> FormatList" where
  "FormatList_Sort before list = foldr (sortInsert before) list []"

text \<open>
  Modelled from the spec: \<open>FormatList.FindByItag\<close> is not under src/. The spec has the
  lookup by itag be an "exact match" that finds nothing when the itag is absent; the
  result is a pointer, \<open>nil\<close> when nothing is found.
\<close>

definition FormatList_FindByItag :: "FormatList \<Rightarrow> int \<Rightarrow> format option" where
  "FormatList_FindByItag list itagNo = find (\<lambda>f. ItagNo f = itagNo) list"

section \<open>Format selection\<close>

text \<open>
  \<open>getVideoAudioFormats\<close> (downloader.go, lines 160-195). The three local slices of
  the function are named definitions, so that claims can speak about them:
  \<open>narrowedFormats\<close> is \<open>formats\<close> after lines 164-167, \<open>videoCandidates\<close> is
  \<open>videoFormats\<close> after lines 169 and 172-174, \<open>audioCandidates\<close> is \<open>audioFormats\<close>
  after line 170. The two pointers \<open>videoFormat\<close> and \<open>audioFormat\<close> are options
  (\<open>None\<close> is \<open>nil\<close>); \<open>&videoFormats[0]\<close> after the in-place sort is the head of the
  sorted list, read only when the list is not empty.
\<close>

definition narrowedFormats :: "(string \<Rightarrow> string \<Rightarrow> bool) \<Rightarrow> video \<Rightarrow> string \<Rightarrow> FormatList" where
  "narrowedFormats inClass v mimetype =
     (let formats = Formats v in
      if mimetype \<noteq> [] then FormatList_Type inClass formats mimetype else formats)"

definition videoCandidates ::
  "(string \<Rightarrow> string \<Rightarrow> bool) \<Rightarrow> (format \<Rightarrow> string \<Rightarrow> bool) \<Rightarrow> video \<Rightarrow> string \<Rightarrow> string \<Rightarrow> FormatList" where
  "videoCandidates inClass qmatch v quality mimetype =
     (let formats = narrowedFormats inClass v mimetype;
          videoFormats = FormatList_AudioChannels (FormatList_Type inClass formats ''video'') 0
      in if quality \<noteq> [] then FormatList_Quality qmatch videoFormats quality else videoFormats)"

definition audioCandidates :: "(string \<Rightarrow> string \<Rightarrow> bool) \<Rightarrow> video \<Rightarrow> string \<Rightarrow> FormatList" where
  "audioCandidates inClass v mimetype =
     FormatList_Type inClass (narrowedFormats inClass v mimetype) ''audio''"

definition firstSorted :: "(format \<Rightarrow> format \<Rightarrow> bool) \<Rightarrow> FormatList \<Rightarrow> format option" where
  "firstSorted before list =
     (if length list > 0
      then (case FormatList_Sort before list of [] \<Rightarrow> None | f # _ \<Rightarrow> Some f)
      else None)"

definition getVideoAudioFormats ::
  "(string \<Rightarrow> string \<Rightarrow> bool) \<Rightarrow> (format \<Rightarrow> string \<Rightarrow> bool) \<Rightarrow> (format \<Rightarrow> format \<Rightarrow> bool) \<Rightarrow>
   video \<Rightarrow> string \<Rightarrow> string \<Rightarrow> error + (format \<times> format)" where
  "getVideoAudioFormats inClass qmatch before v quality mimetype =
     (let videoFormats = videoCandidates inClass qmatch v quality mimetype;
          audioFormats = audioCandidates inClass v mimetype;
          videoFormat = firstSorted before videoFormats;
          audioFormat = firstSorted before audioFormats
      in case videoFormat of
           None \<Rightarrow> Inl (Errorf ''no video format found after filtering'')
         | Some vf \<Rightarrow>
             (case audioFormat of
                None \<Rightarrow> Inl (Errorf ''no audio format found after filtering'')
              | Some af \<Rightarrow> Inr (vf, af)))"

text \<open>\<open>getFormatByItag\<close> (lines 197-206).\<close>

definition getFormatByItag :: "video \<Rightarrow> int \<Rightarrow> error + format" where
  "getFormatByItag v itag =
     (let formats = Formats v;
          r = FormatList_FindByItag formats itag
      in case r of
           None \<Rightarrow> Inl (Errorf ''no audio format found'')
         | Some f \<Rightarrow> Inr f)"

section \<open>The world outside the program\<close>

text \<open>
  The downloader acts on the file system, on the network and on a child process. These
  are made explicit: a \<open>world\<close> holds the regular files by path, the directories by path
  with the permission bits they were created with (the bits passed to the call; the
  umask of the process is not modelled), and the log of every effect the program
  attempted, in order. \<open>ffmpegCheck\<close> is the package-level variable of the
  command-line program (line 269), \<open>nil\<close> when the process starts.

  The effects: \<open>EvMkdirAll\<close>, \<open>EvCreate\<close>, \<open>EvCreateTemp\<close> and \<open>EvRemove\<close> are the
  calls of package os with their arguments, \<open>EvGetStream\<close> is a call of
  \<open>GetStreamContext\<close> (a request over the network) for a video id and the itag of a
  format, \<open>EvExec\<close> is the run of a command with its arguments, \<open>EvFetchVideo\<close> is a
  fetch of the catalog of a video id.
\<close>

datatype event =
    EvFetchVideo string
  | EvMkdirAll string nat
  | EvCreate string
  | EvCreateTemp string string
  | EvRemove string
  | EvGetStream string int
  | EvExec string "string list"

record world =
  files :: "string \<rightharpoonup> byte list"
  dirs :: "string \<rightharpoonup> nat"
  events :: "event list"
  ffmpegCheck :: "error option"

text \<open>
  A stream as \<open>io.Copy\<close> sees it: the chunks that successive \<open>Read\<close> calls deliver, and
  how the stream ends, with \<open>io.EOF\<close> (\<open>None\<close>) or with a read error.
\<close>

record stream =
  chunks :: "byte list list"
  finalErr :: "error option"

datatype exec_outcome = NotStarted | Exited int

text \<open>
  What the program cannot decide is a parameter, collected in \<open>env\<close>:
  \<^item> functions of the repository that are not under src/: \<open>SanitizeFilename\<close>, the
    table, the fallback and the MIME parsing behind \<open>pickIdealFileExtension\<close>, the
    function \<open>getVideoWithFormat\<close> of the command (it gets the video and a default
    format for an id, or an error, and may do anything to the world), and the three
    parameters of the catalog methods;
  \<^item> \<open>filepath.Join\<close> and \<open>filepath.Dir\<close> of the standard library, and the ancestors
    of a path that \<open>os.MkdirAll\<close> has to create;
  \<^item> the outcome of each system call: whether \<open>os.MkdirAll\<close>, \<open>os.Create\<close> and
    \<open>os.Remove\<close> fail, the name \<open>os.CreateTemp\<close> picks, how many bytes a file accepts
    before writes to it fail, what \<open>GetStreamContext\<close> answers for a format, and what
    running a command does (whether it starts, its exit status, what it does to the
    files);
  \<^item> \<open>int64Overflow\<close>, the value a conversion from \<open>float64\<close> to \<open>int64\<close> yields when the
    number is out of the range of \<open>int64\<close>: the language leaves it to the implementation.
\<close>

record env =
  SanitizeFilename :: "string \<Rightarrow> string"
  extensionTable :: "(string \<times> string) list"
  defaultExtension :: string
  mediaSubtype :: "string \<Rightarrow> string"
  getVideoWithFormat :: "string \<Rightarrow> world \<Rightarrow> (error + (video \<times> format)) \<times> world"
  mimeInClass :: "string \<Rightarrow> string \<Rightarrow> bool"
  qualityMatches :: "format \<Rightarrow> string \<Rightarrow> bool"
  sortsBefore :: "format \<Rightarrow> format \<Rightarrow> bool"
  pathJoin :: "string \<Rightarrow> string \<Rightarrow> string"
  pathDir :: "string \<Rightarrow> string"
  pathParents :: "string \<Rightarrow> string list"
  mkdirAllResult :: "string \<Rightarrow> error option"
  createResult :: "string \<Rightarrow> error option"
  createTempResult :: "string \<Rightarrow> string \<Rightarrow> error + string"
  removeResult :: "string \<Rightarrow> error option"
  writeLimit :: "string \<Rightarrow> nat option"
  GetStreamContext :: "video \<Rightarrow> format \<Rightarrow> error + (stream \<times> int)"
  runCommand :: "string \<Rightarrow> string list \<Rightarrow> (string \<rightharpoonup> byte list) \<Rightarrow> exec_outcome \<times> (string \<rightharpoonup> byte list)"
  int64Overflow :: int

definition logEvent :: "event \<Rightarrow> world \<Rightarrow> world" where
  "logEvent e w = w\<lparr>events := events w @ [e]\<rparr>"

subsection \<open>System calls\<close>

text \<open>
  \<open>os.MkdirAll(path, perm)\<close>: creates \<open>path\<close> and every missing ancestor with the bits
  \<open>perm\<close>; a directory that exists is left as it is. A failing call is modelled as
  creating nothing.
\<close>

definition mkdirIfAbsent :: "nat \<Rightarrow> (string \<rightharpoonup> nat) \<Rightarrow> string \<Rightarrow> (string \<rightharpoonup> nat)" where
  "mkdirIfAbsent perm d p = (case d p of None \<Rightarrow> d(p \<mapsto> perm) | Some _ \<Rightarrow> d)"

definition os_MkdirAll :: "env \<Rightarrow> string \<Rightarrow> nat \<Rightarrow> world \<Rightarrow> error option \<times> world" where
  "os_MkdirAll E path perm w =
     (let w1 = logEvent (EvMkdirAll path perm) w in
      case mkdirAllResult E path of
        Some err \<Rightarrow> (Some err, w1)
      | None \<Rightarrow>
          (None, w1\<lparr>dirs := foldl (mkdirIfAbsent perm) (dirs w1) (pathParents E path @ [path])\<rparr>))"

text \<open>\<open>os.Create(name)\<close>: creates the file, or truncates it when it exists.\<close>

definition os_Create :: "env \<Rightarrow> string \<Rightarrow> world \<Rightarrow> error option \<times> world" where
  "os_Create E name w =
     (let w1 = logEvent (EvCreate name) w in
      case createResult E name of
        Some err \<Rightarrow> (Some err, w1)
      | None \<Rightarrow> (None, w1\<lparr>files := (files w1)(name \<mapsto> [])\<rparr>))"

text \<open>
  \<open>os.CreateTemp(dir, pattern)\<close>: creates a new empty file in \<open>dir\<close> and returns its
  name, which the system picks.
\<close>

definition os_CreateTemp :: "env \<Rightarrow> string \<Rightarrow> string \<Rightarrow> world \<Rightarrow> (error + string) \<times> world" where
  "os_CreateTemp E dir pattern w =
     (let w1 = logEvent (EvCreateTemp dir pattern) w in
      case createTempResult E dir pattern of
        Inl err \<Rightarrow> (Inl err, w1)
      | Inr name \<Rightarrow> (Inr name, w1\<lparr>files := (files w1)(name \<mapsto> [])\<rparr>))"

text \<open>
  \<open>os.Remove(name)\<close>: when the call succeeds the path no longer names a file; when it
  fails the files are as they were. The call can fail: the two files the program
  removes are still open when it removes them (the program never closes them), which
  some systems refuse, and the directory may not allow it. The program drops the
  call's result (lines 88 and 95), so the model returns the world only.
\<close>

definition os_Remove :: "env \<Rightarrow> string \<Rightarrow> world \<Rightarrow> world" where
  "os_Remove E name w =
     (let w1 = logEvent (EvRemove name) w in
      case removeResult E name of
        Some err \<Rightarrow> w1
      | None \<Rightarrow> w1\<lparr>files := (files w1)(name := None)\<rparr>)"

text \<open>
  \<open>(*os.File).Write(p)\<close> on the file opened at path \<open>name\<close>: the bytes are appended
  (the callers write to files they have just created, so the offset is the length).
  When the file would grow beyond its limit, the bytes that fit are written and the call
  fails. A write to a file whose path is gone succeeds and is not seen under the path.
\<close>

definition File_Write :: "env \<Rightarrow> string \<Rightarrow> byte list \<Rightarrow> world \<Rightarrow> nat \<times> error option \<times> world" where
  "File_Write E name p w =
     (case files w name of
        None \<Rightarrow> (length p, None, w)
      | Some d \<Rightarrow>
          (case writeLimit E name of
             None \<Rightarrow> (length p, None, w\<lparr>files := (files w)(name \<mapsto> d @ p)\<rparr>)
           | Some lim \<Rightarrow>
               if length d + length p \<le> lim
               then (length p, None, w\<lparr>files := (files w)(name \<mapsto> d @ p)\<rparr>)
               else (let n = lim - length d in
                     (n, Some (OSError ''no space left on device''),
                      w\<lparr>files := (files w)(name \<mapsto> d @ take n p)\<rparr>))))"

text \<open>
  \<open>exec.Command(name, args...).Run()\<close>: \<open>nil\<close> when the command ran and exited with
  status 0, an \<open>*exec.ExitError\<close> when it exited with another status, an \<open>*exec.Error\<close>
  when the executable was not found.
\<close>

definition Cmd_Run :: "env \<Rightarrow> string \<Rightarrow> string list \<Rightarrow> world \<Rightarrow> error option \<times> world" where
  "Cmd_Run E name args w =
     (let w1 = logEvent (EvExec name args) w in
      case runCommand E name args (files w1) of
        (NotStarted, _) \<Rightarrow> (Some (ExecError name), w1)
      | (Exited code, fs) \<Rightarrow>
          (if code = 0 then None else Some (ExitError code), w1\<lparr>files := fs\<rparr>))"

section \<open>The downloader\<close>

text \<open>The struct \<open>Downloader\<close> (lines 17-20); the embedded client is in \<open>env\<close>.\<close>

record Downloader =
  OutputDir :: string

subsection \<open>Output path\<close>

text \<open>
  Modelled from the spec: \<open>pickIdealFileExtension\<close> is defined in a file of package
  downloader that is not under src/. The spec has it infer the extension "from the
  chosen format's MIME type via a fixed subtype\<rightarrow>extension table (unknown subtype \<rightarrow> a
  documented fallback extension)". The table, the fallback and the reading of the
  subtype are fields of \<open>env\<close>.
\<close>

definition pickIdealFileExtension :: "env \<Rightarrow> string \<Rightarrow> string" where
  "pickIdealFileExtension E mediaType =
     (case map_of (extensionTable E) (mediaSubtype E mediaType) of
        None \<Rightarrow> defaultExtension E
      | Some extension \<Rightarrow> extension)"

text \<open>\<open>getOutputFile\<close> (lines 22-36). The octal literal \<open>0o755\<close> is 493.\<close>

definition getOutputFile ::
  "env \<Rightarrow> Downloader \<Rightarrow> video \<Rightarrow> format \<Rightarrow> string \<Rightarrow> world \<Rightarrow> (error + string) \<times> world" where
  "getOutputFile E dl v format outputFile w =
     (let outputFile =
            (if outputFile = []
             then SanitizeFilename E (Title v) @ pickIdealFileExtension E (MimeType format)
             else outputFile)
      in if OutputDir dl \<noteq> []
         then (case os_MkdirAll E (OutputDir dl) 493 w of
                 (Some err, w1) \<Rightarrow> (Inl err, w1)
               | (None, w1) \<Rightarrow> (Inr (pathJoin E (OutputDir dl) outputFile), w1))
         else (Inr outputFile, w))"

subsection \<open>Copying a stream to a file\<close>

text \<open>
  Line 215 converts the declared size, an \<open>int64\<close>, to a \<open>float64\<close>, and line 221 converts
  it back. A \<open>float64\<close> has 53 significant bits: an integer of at most 53 bits is kept
  as it is, a longer one is rounded to the nearest integer with 53 significant bits, to
  the even one of the two when it lies halfway. The result is again an integer, so the
  model keeps a \<open>float64\<close> that came from an integer as the integer it is equal to.
\<close>

fun bitLength :: "nat \<Rightarrow> nat" where
  "bitLength n = (if n = 0 then 0 else Suc (bitLength (n div 2)))"

declare bitLength.simps [simp del]

definition roundTo53Bits :: "nat \<Rightarrow> nat" where
  "roundTo53Bits m =
     (if bitLength m \<le> 53 then m
      else (let e = bitLength m - 53;
                q = m div 2 ^ e;
                r = m mod 2 ^ e;
                half = 2 ^ (e - 1)
            in (if r > half \<or> (r = half \<and> odd q) then q + 1 else q) * 2 ^ e))"

definition float64_of_int64 :: "int \<Rightarrow> int" where
  "float64_of_int64 n =
     (if n < 0 then - int (roundTo53Bits (nat (- n))) else int (roundTo53Bits (nat n)))"

text \<open>
  The conversion back to \<open>int64\<close> of a \<open>float64\<close> that is an integer: the integer when
  it is in the range of \<open>int64\<close>, a value left to the implementation otherwise.
\<close>

definition int64_of_float64 :: "env \<Rightarrow> int \<Rightarrow> int" where
  "int64_of_float64 E x = (if - (2 ^ 63) \<le> x \<and> x < 2 ^ 63 then x else int64Overflow E)"

text \<open>
  The struct \<open>progress\<close> is built on line 214 with its field \<open>contentLength\<close>, a
  \<open>float64\<close>; the rest of it is not under src/, and \<open>totalWrittenBytes\<close> is the byte
  counter the spec gives it.
\<close>

record progress =
  contentLength :: int
  totalWrittenBytes :: nat

text \<open>
  Modelled from the spec: the \<open>Write\<close> method of \<open>progress\<close> is not under src/. The spec
  has the tracker wrap "the destination side of a copy so every write increments a
  monotonic byte counter", and never drop data: it takes all the bytes it is given.
\<close>

definition progress_Write :: "progress \<Rightarrow> byte list \<Rightarrow> nat \<times> progress" where
  "progress_Write prog p =
     (length p, prog\<lparr>totalWrittenBytes := totalWrittenBytes prog + length p\<rparr>)"

text \<open>
  The progress bar of lines 219-232, as it is configured: the width given to \<open>mpb.New\<close>,
  the total, and the decorators before and after the bar, in the order of the source.
  What the bar counts and shows while the copy runs is the business of the mpb library
  and is not modelled.
\<close>

datatype width_conf = WCSyncSpace

datatype time_style = ET_STYLE_GO

datatype size_unit = UnitKiB

datatype decorator =
    CountersKibiByte string
  | Percentage width_conf
  | EwmaETA time_style nat
  | Name string
  | EwmaSpeed size_unit string nat

record bar =
  barWidth :: nat
  barTotal :: int
  prependDecorators :: "decorator list"
  appendDecorators :: "decorator list"

definition AddBar :: "int \<Rightarrow> bar" where
  "AddBar n =
     \<lparr>barWidth = 64, barTotal = n,
      prependDecorators = [CountersKibiByte ''% .2f / % .2f'', Percentage WCSyncSpace],
      appendDecorators = [EwmaETA ET_STYLE_GO 90, Name '' ] '', EwmaSpeed UnitKiB ''% .2f'' 60]\<rparr>"

text \<open>The locals of \<open>videoDLWorker\<close> that the copy changes.\<close>

record dlstate =
  prog :: progress
  pbar :: bar

text \<open>
  \<open>bar.ProxyReader(stream).Read\<close>: hands on the bytes the stream delivers, unchanged
  and in the same order; it also tells the bar how many they are, which changes nothing
  the model keeps.
\<close>

definition ProxyReader_Read :: "byte list \<Rightarrow> byte list" where
  "ProxyReader_Read c = c"

text \<open>
  \<open>io.MultiWriter(out, prog).Write(p)\<close>: writes \<open>p\<close> to each writer in turn, the file
  first; it stops at the first error, and a writer that takes fewer bytes than given
  makes it fail with \<open>io.ErrShortWrite\<close>.
\<close>

definition MultiWriter_Write ::
  "env \<Rightarrow> string \<Rightarrow> byte list \<Rightarrow> world \<times> dlstate \<Rightarrow> error option \<times> world \<times> dlstate" where
  "MultiWriter_Write E out p s =
     (case s of (w, st) \<Rightarrow>
        (case File_Write E out p w of
           (n, Some err, w1) \<Rightarrow> (Some err, w1, st)
         | (n, None, w1) \<Rightarrow>
             if n \<noteq> length p then (Some ErrShortWrite, w1, st)
             else (case progress_Write (prog st) p of
                     (n2, prog2) \<Rightarrow>
                       if n2 \<noteq> length p then (Some ErrShortWrite, w1, st\<lparr>prog := prog2\<rparr>)
                       else (None, w1, st\<lparr>prog := prog2\<rparr>))))"

text \<open>
  \<open>io.Copy(mw, reader)\<close> (line 236): read a chunk, write it when it is not empty, stop
  at the first write error; when the stream ends, return \<open>nil\<close> for \<open>io.EOF\<close> and the
  error otherwise.
\<close>

fun io_Copy ::
  "env \<Rightarrow> string \<Rightarrow> byte list list \<Rightarrow> error option \<Rightarrow> world \<times> dlstate \<Rightarrow> error option \<times> world \<times> dlstate" where
  "io_Copy E out [] fin (w, st) = (fin, w, st)"
| "io_Copy E out (c # cs) fin (w, st) =
     (let buf = ProxyReader_Read c in
      if length buf > 0
      then (case MultiWriter_Write E out buf (w, st) of
              (Some err, w2, st2) \<Rightarrow> (Some err, w2, st2)
            | (None, w2, st2) \<Rightarrow> io_Copy E out cs fin (w2, st2))
      else io_Copy E out cs fin (w, st))"

text \<open>
  \<open>videoDLWorker\<close> (lines 208-243). \<open>out\<close> is the path of the open file. Besides the
  error, the model returns the locals \<open>prog\<close> and \<open>bar\<close> as they are when the function
  returns (\<open>None\<close> when the stream could not be opened), for the claims that speak
  about the progress counter. The declared size goes through \<open>float64\<close> on line 215 and
  back to \<open>int64\<close> on line 221. \<open>progress.Wait()\<close> (line 241) waits for the renderer of
  the bar and changes none of this; it is left out.
\<close>

definition videoDLWorker ::
  "env \<Rightarrow> string \<Rightarrow> video \<Rightarrow> format \<Rightarrow> world \<Rightarrow> error option \<times> dlstate option \<times> world" where
  "videoDLWorker E out video format w =
     (let w1 = logEvent (EvGetStream (ID video) (ItagNo format)) w in
      case GetStreamContext E video format of
        Inl err \<Rightarrow> (Some err, None, w1)
      | Inr (stream, size0) \<Rightarrow>
          (let prog0 = \<lparr>contentLength = float64_of_int64 size0, totalWrittenBytes = 0\<rparr>;
               bar0 = AddBar (int64_of_float64 E (contentLength prog0))
           in case io_Copy E out (chunks stream) (finalErr stream)
                     (w1, \<lparr>prog = prog0, pbar = bar0\<rparr>) of
                (Some err, w2, st) \<Rightarrow> (Some err, Some st, w2)
              | (None, w2, st) \<Rightarrow> (None, Some st, w2)))"

subsection \<open>The three downloads\<close>

text \<open>
  Calls to the logger write no file and decide nothing; they are left out. The deferred
  \<open>Close\<close> of the destination in \<open>Download\<close> and \<open>DownloadByItag\<close> changes neither its
  content nor its path and is left out too.

  \<open>Download\<close> (lines 39-59).
\<close>

definition Download ::
  "env \<Rightarrow> Downloader \<Rightarrow> video \<Rightarrow> format \<Rightarrow> string \<Rightarrow> world \<Rightarrow> error option \<times> world" where
  "Download E dl v format outputFile w =
     (case getOutputFile E dl v format outputFile w of
        (Inl err, w1) \<Rightarrow> (Some err, w1)
      | (Inr destFile, w1) \<Rightarrow>
          (case os_Create E destFile w1 of
             (Some err, w2) \<Rightarrow> (Some err, w2)
           | (None, w2) \<Rightarrow>
               (case videoDLWorker E destFile v format w2 of
                  (err, _, w3) \<Rightarrow> (err, w3))))"

text \<open>
  \<open>DownloadComposite\<close> (lines 62-123). \<open>compositeBody\<close> is the part of the function
  after both deferred removals are registered (lines 97-122): the two downloads and the
  run of ffmpeg. The deferred calls run when the function returns, the last registered
  first: the audio file is removed, then the video file. When the second
  \<open>os.CreateTemp\<close> fails only the first removal is registered.
\<close>

definition compositeBody ::
  "env \<Rightarrow> video \<Rightarrow> format \<Rightarrow> format \<Rightarrow> string \<Rightarrow> string \<Rightarrow> string \<Rightarrow> world \<Rightarrow> error option \<times> world" where
  "compositeBody E v videoFormat audioFormat videoFile audioFile destFile w =
     (case videoDLWorker E videoFile v videoFormat w of
        (Some err, _, w1) \<Rightarrow> (Some err, w1)
      | (None, _, w1) \<Rightarrow>
          (case videoDLWorker E audioFile v audioFormat w1 of
             (Some err, _, w2) \<Rightarrow> (Some err, w2)
           | (None, _, w2) \<Rightarrow>
               Cmd_Run E ''ffmpeg''
                 [''-y'', ''-i'', videoFile, ''-i'', audioFile, ''-c'', ''copy'', ''-shortest'',
                  destFile, ''-loglevel'', ''warning''] w2))"

definition DownloadComposite ::
  "env \<Rightarrow> Downloader \<Rightarrow> string \<Rightarrow> video \<Rightarrow> string \<Rightarrow> string \<Rightarrow> world \<Rightarrow> error option \<times> world" where
  "DownloadComposite E dl outputFile v quality mimetype w =
     (case getVideoAudioFormats (mimeInClass E) (qualityMatches E) (sortsBefore E) v quality mimetype of
        Inl err1 \<Rightarrow> (Some err1, w)
      | Inr (videoFormat, audioFormat) \<Rightarrow>
          (case getOutputFile E dl v videoFormat outputFile w of
             (Inl err, w1) \<Rightarrow> (Some err, w1)
           | (Inr destFile, w1) \<Rightarrow>
               (let outputDir = pathDir E destFile in
                case os_CreateTemp E outputDir ''youtube_*.m4v'' w1 of
                  (Inl err, w2) \<Rightarrow> (Some err, w2)
                | (Inr videoFile, w2) \<Rightarrow>
                    (case (case os_CreateTemp E outputDir ''youtube_*.m4a'' w2 of
                             (Inl err, w3) \<Rightarrow> (Some err, w3)
                           | (Inr audioFile, w3) \<Rightarrow>
                               (case compositeBody E v videoFormat audioFormat
                                       videoFile audioFile destFile w3 of
                                  (r, w4) \<Rightarrow> (r, os_Remove E audioFile w4))) of
                       (r, w5) \<Rightarrow> (r, os_Remove E videoFile w5)))))"

text \<open>\<open>DownloadByItag\<close> (lines 126-158).\<close>

definition DownloadByItag ::
  "env \<Rightarrow> Downloader \<Rightarrow> string \<Rightarrow> video \<Rightarrow> int \<Rightarrow> world \<Rightarrow> error option \<times> world" where
  "DownloadByItag E dl outputFile v itag w =
     (case getFormatByItag v itag of
        Inl err1 \<Rightarrow> (Some err1, w)
      | Inr format \<Rightarrow>
          (case getOutputFile E dl v format outputFile w of
             (Inl err, w1) \<Rightarrow> (Some err, w1)
           | (Inr destFile, w1) \<Rightarrow>
               (case os_Create E destFile w1 of
                  (Some err, w2) \<Rightarrow> (Some err, w2)
                | (None, w2) \<Rightarrow>
                    (case videoDLWorker E destFile v format w2 of
                       (Some err, _, w3) \<Rightarrow> (Some err, w3)
                     | (None, _, w3) \<Rightarrow> (None, w3)))))"

section \<open>The download command\<close>

text \<open>
  The second file under src/ (lines 244-318) is the \<open>download\<close> command of the
  command-line program. Its flags are the package-level variables \<open>outputFile\<close>,
  \<open>outputDir\<close>, \<open>itagString\<close>, \<open>outputQuality\<close> and \<open>mimetype\<close> (the last two are
  declared in another file of the command); the fields carry the suffix \<open>Flag\<close> to keep
  them apart from the parameters of the same names.
\<close>

record flags =
  outputFileFlag :: string
  outputDirFlag :: string
  itagStringFlag :: string
  outputQualityFlag :: string
  mimetypeFlag :: string

text \<open>\<open>checkFFMPEG\<close> (lines 311-318).\<close>

definition checkFFMPEG :: "env \<Rightarrow> world \<Rightarrow> error option \<times> world" where
  "checkFFMPEG E w =
     (case Cmd_Run E ''ffmpeg'' [''-version''] w of
        (Some err, w1) \<Rightarrow>
          (let w2 = w1\<lparr>ffmpegCheck := Some (Errorf ''please check ffmpegCheck is installed correctly'')\<rparr>
           in (ffmpegCheck w2, w2))
      | (None, w1) \<Rightarrow> (ffmpegCheck w1, w1))"

text \<open>
  \<open>strconv.Atoi\<close>: an optional sign, then one or more decimal digits, the value within
  the range of a 64-bit \<open>int\<close>.
\<close>

definition digitValue :: "char \<Rightarrow> nat option" where
  "digitValue c =
     (let n = (of_char c :: nat) in if 48 \<le> n \<and> n \<le> 57 then Some (n - 48) else None)"

fun parseDigits :: "nat \<Rightarrow> string \<Rightarrow> nat option" where
  "parseDigits acc [] = Some acc"
| "parseDigits acc (c # cs) =
     (case digitValue c of None \<Rightarrow> None | Some d \<Rightarrow> parseDigits (10 * acc + d) cs)"

definition Atoi :: "string \<Rightarrow> int option" where
  "Atoi s =
     (case (case s of
              [] \<Rightarrow> (False, s)
            | c # cs \<Rightarrow>
                if c = CHR ''-'' then (True, cs)
                else if c = CHR ''+'' then (False, cs)
                else (False, s)) of
        (neg, ds) \<Rightarrow>
          if ds = [] then None
          else (case parseDigits 0 ds of
                  None \<Rightarrow> None
                | Some n \<Rightarrow>
                    (let i = (if neg then - int n else int n) in
                     if - (2 ^ 63) \<le> i \<and> i < 2 ^ 63 then Some i else None)))"

definition HasPrefix :: "string \<Rightarrow> string \<Rightarrow> bool" where
  "HasPrefix s pre = (take (length pre) s = pre)"

text \<open>
  \<open>download\<close> (lines 285-309). \<open>dl\<close> is the package-level \<open>downloader\<close> the command
  uses.
\<close>

definition download :: "env \<Rightarrow> flags \<Rightarrow> Downloader \<Rightarrow> string \<Rightarrow> world \<Rightarrow> error option \<times> world" where
  "download E fl dl id0 w =
     (case getVideoWithFormat E id0 w of
        (Inl err, w1) \<Rightarrow> (Some err, w1)
      | (Inr (video, format), w1) \<Rightarrow>
          if itagStringFlag fl \<noteq> []
          then (case Atoi (itagStringFlag fl) of
                  None \<Rightarrow> (Some (Errorf (''Invalid Itag number '' @ itagStringFlag fl)), w1)
                | Some itagNo \<Rightarrow> DownloadByItag E dl (outputFileFlag fl) video itagNo w1)
          else if HasPrefix (outputQualityFlag fl) ''hd''
          then (case checkFFMPEG E w1 of
                  (Some err, w2) \<Rightarrow> (Some err, w2)
                | (None, w2) \<Rightarrow>
                    DownloadComposite E dl (outputFileFlag fl) video (outputQualityFlag fl) (mimetypeFlag fl) w2)
          else Download E dl video format (outputFileFlag fl) w1)"

section \<open>Example catalog\<close>

text \<open>
  A concrete catalog, used to run the definitions: itag 18 and 22 are muxed streams,
  137 is video only, 140 is audio only. A MIME type belongs to a class when it starts
  with the class name; a format matches a quality by its \<open>Quality\<close> or its
  \<open>QualityLabel\<close>; a higher bitrate sorts first.
\<close>

definition exInClass :: "string \<Rightarrow> string \<Rightarrow> bool" where
  "exInClass m t = (take (length t) m = t)"

definition exQMatch :: "format \<Rightarrow> string \<Rightarrow> bool" where
  "exQMatch f q = (Quality f = q \<or> QualityLabel f = q)"

definition exBefore :: "format \<Rightarrow> format \<Rightarrow> bool" where
  "exBefore a b = (Bitrate a > Bitrate b)"

definition exFormat18 :: format where
  "exFormat18 = \<lparr>ItagNo = 18, MimeType = ''video/mp4'', Quality = ''medium'',
     QualityLabel = ''360p'', AudioChannels = 2, Bitrate = 500\<rparr>"

definition exFormat22 :: format where
  "exFormat22 = \<lparr>ItagNo = 22, MimeType = ''video/mp4'', Quality = ''hd720'',
     QualityLabel = ''720p'', AudioChannels = 2, Bitrate = 1500\<rparr>"

definition exFormat137 :: format where
  "exFormat137 = \<lparr>ItagNo = 137, MimeType = ''video/mp4'', Quality = ''hd1080'',
     QualityLabel = ''1080p'', AudioChannels = 0, Bitrate = 4000\<rparr>"

definition exFormat140 :: format where
  "exFormat140 = \<lparr>ItagNo = 140, MimeType = ''audio/mp4'', Quality = ''tiny'',
     QualityLabel = [], AudioChannels = 2, Bitrate = 128\<rparr>"

definition exVideo :: video where
  "exVideo = \<lparr>ID = ''abc'', Title = ''Test Video'',
     Formats = [exFormat18, exFormat22, exFormat137, exFormat140]\<rparr>"

definition exCatalog :: video where
  "exCatalog = \<lparr>ID = ''abc'', Title = ''Test Video'',
     Formats = [exFormat18, exFormat22, exFormat140]\<rparr>"

section \<open>Example world\<close>

text \<open>
  A concrete environment in which every system call succeeds: paths are joined with a
  slash, the two temporary files get fixed names, every format streams the same five
  bytes in three reads (the second one empty), fetching a video is one logged effect
  that answers with the example catalog, and ffmpeg exits with status 0. Failures are
  obtained by updating single fields.
\<close>

definition exSubtype :: "string \<Rightarrow> string" where
  "exSubtype m = takeWhile (\<lambda>c. c \<noteq> CHR '';'') (drop 1 (dropWhile (\<lambda>c. c \<noteq> CHR ''/'') m))"

definition exDir :: "string \<Rightarrow> string" where
  "exDir p =
     (if CHR ''/'' \<in> set p then rev (drop 1 (dropWhile (\<lambda>c. c \<noteq> CHR ''/'') (rev p)))
      else ''.'')"

definition exParents :: "string \<Rightarrow> string list" where
  "exParents p = (if p = ''videos/new'' then [''videos''] else [])"

definition exTempName :: "string \<Rightarrow> string \<Rightarrow> error + string" where
  "exTempName d pat =
     Inr (d @ ''/'' @ (if pat = ''youtube_*.m4v'' then ''youtube_1.m4v'' else ''youtube_2.m4a''))"

definition exStream :: stream where
  "exStream = \<lparr>chunks = [[1, 2, 3], [], [4, 5]], finalErr = None\<rparr>"

definition exEnv :: env where
  "exEnv =
     \<lparr>SanitizeFilename = (\<lambda>t. t),
      extensionTable = [(''mp4'', ''.mp4''), (''webm'', ''.webm'')],
      defaultExtension = ''.mov'',
      mediaSubtype = exSubtype,
      getVideoWithFormat = (\<lambda>i w. (Inr (exVideo, exFormat18), logEvent (EvFetchVideo i) w)),
      mimeInClass = exInClass,
      qualityMatches = exQMatch,
      sortsBefore = exBefore,
      pathJoin = (\<lambda>d f. d @ ''/'' @ f),
      pathDir = exDir,
      pathParents = exParents,
      mkdirAllResult = (\<lambda>p. None),
      createResult = (\<lambda>p. None),
      createTempResult = exTempName,
      removeResult = (\<lambda>p. None),
      writeLimit = (\<lambda>p. None),
      GetStreamContext = (\<lambda>v f. Inr (exStream, 5)),
      runCommand = (\<lambda>name args fs. (Exited 0, fs)),
      int64Overflow = - (2 ^ 63)\<rparr>"

definition exWorld :: world where
  "exWorld = \<lparr>files = Map.empty, dirs = Map.empty, events = [], ffmpegCheck = None\<rparr>"

definition exDownloader :: Downloader where
  "exDownloader = \<lparr>OutputDir = []\<rparr>"

definition exEnvMergeFails :: env where
  "exEnvMergeFails = exEnv\<lparr>runCommand := (\<lambda>name args fs. (Exited 1, fs))\<rparr>"


definition exEnvNoTool :: env where
  "exEnvNoTool = exEnv\<lparr>runCommand := (\<lambda>name args fs. (NotStarted, fs))\<rparr>"

definition exFlags :: flags where
  "exFlags = \<lparr>outputFileFlag = ''out.mp4'', outputDirFlag = ''.'', itagStringFlag = [],
     outputQualityFlag = ''hd1080'', mimetypeFlag = []\<rparr>"

text \<open>The argument list of line 110, for the statements below.\<close>

abbreviation mergeArgs :: "string \<Rightarrow> string \<Rightarrow> string \<Rightarrow> string list" where
  "mergeArgs videoFile audioFile destFile \<equiv>
     [''-y'', ''-i'', videoFile, ''-i'', audioFile, ''-c'', ''copy'', ''-shortest'',
      destFile, ''-loglevel'', ''warning'']"

section \<open>Properties of the catalog methods\<close>

lemma set_sortInsert: "set (sortInsert before x ys) = insert x (set ys)"
  by (induction ys) auto

lemma set_FormatList_Sort: "set (FormatList_Sort before list) = set list"
  by (induction list) (simp_all add: FormatList_Sort_def set_sortInsert)

lemma length_sortInsert: "length (sortInsert before x ys) = Suc (length ys)"
  by (induction ys) auto

lemma length_FormatList_Sort: "length (FormatList_Sort before list) = length list"
  by (induction list) (simp_all add: FormatList_Sort_def length_sortInsert)

lemma firstSorted_None: "firstSorted before list = None \<longleftrightarrow> list = []"
proof (cases list)
  case Nil
  then show ?thesis by (simp add: firstSorted_def)
next
  case (Cons a as)
  then have "length (FormatList_Sort before list) = Suc (length as)"
    by (simp add: length_FormatList_Sort)
  then obtain b bs where "FormatList_Sort before list = b # bs"
    by (cases "FormatList_Sort before list") auto
  with Cons show ?thesis by (simp add: firstSorted_def)
qed

lemma firstSorted_Some: "firstSorted before list = Some f \<Longrightarrow> f \<in> set list"
proof -
  assume a: "firstSorted before list = Some f"
  then obtain fs where "FormatList_Sort before list = f # fs"
    by (auto simp: firstSorted_def split: if_splits list.splits)
  then have "f \<in> set (FormatList_Sort before list)" by simp
  then show ?thesis by (simp add: set_FormatList_Sort)
qed

section \<open>Claims about format selection\<close>

text \<open>
  C1. Whenever the catalog, after the optional narrowing to \<open>mimetype\<close>, holds a
  video-class format \<open>f\<close> with audio-channel count 0 (matching \<open>quality\<close> when a quality
  is given) and an audio-class format \<open>g\<close>, \<open>getVideoAudioFormats\<close> returns a pair and no
  error; the first component is a video-class format with audio-channel count 0, the
  second an audio-class format, and both are elements of \<open>v.Formats\<close>.
\<close>

theorem getVideoAudioFormats_selects:
  assumes fv: "f \<in> set (narrowedFormats inClass v mimetype)"
    and fclass: "inClass (MimeType f) ''video''"
    and fchan: "AudioChannels f = 0"
    and fqual: "quality \<noteq> [] \<longrightarrow> qmatch f quality"
    and ga: "g \<in> set (narrowedFormats inClass v mimetype)"
    and gclass: "inClass (MimeType g) ''audio''"
  shows "\<exists>vf af. getVideoAudioFormats inClass qmatch before v quality mimetype = Inr (vf, af)
           \<and> inClass (MimeType vf) ''video'' \<and> AudioChannels vf = 0
           \<and> inClass (MimeType af) ''audio''
           \<and> vf \<in> set (Formats v) \<and> af \<in> set (Formats v)"
proof -
  let ?vs = "videoCandidates inClass qmatch v quality mimetype"
  let ?as = "audioCandidates inClass v mimetype"
  have "f \<in> set ?vs"
    using fv fclass fchan fqual
    by (simp add: videoCandidates_def FormatList_AudioChannels_def FormatList_Type_def
        FormatList_Quality_def Let_def)
  then have "?vs \<noteq> []" by auto
  then obtain vf where vf: "firstSorted before ?vs = Some vf"
    using firstSorted_None [of before ?vs] by (cases "firstSorted before ?vs") auto
  have "g \<in> set ?as"
    using ga gclass by (simp add: audioCandidates_def FormatList_Type_def)
  then have "?as \<noteq> []" by auto
  then obtain af where af: "firstSorted before ?as = Some af"
    using firstSorted_None [of before ?as] by (cases "firstSorted before ?as") auto
  have res: "getVideoAudioFormats inClass qmatch before v quality mimetype = Inr (vf, af)"
    using vf af by (simp add: getVideoAudioFormats_def)
  have vmem: "vf \<in> set ?vs" using vf by (rule firstSorted_Some)
  have amem: "af \<in> set ?as" using af by (rule firstSorted_Some)
  have vprop: "inClass (MimeType vf) ''video'' \<and> AudioChannels vf = 0 \<and> vf \<in> set (Formats v)"
    using vmem
    by (auto simp: videoCandidates_def narrowedFormats_def FormatList_AudioChannels_def
        FormatList_Type_def FormatList_Quality_def Let_def split: if_splits)
  have aprop: "inClass (MimeType af) ''audio'' \<and> af \<in> set (Formats v)"
    using amem
    by (auto simp: audioCandidates_def narrowedFormats_def FormatList_Type_def Let_def
        split: if_splits)
  show ?thesis using res vprop aprop by blast
qed

theorem getVideoAudioFormats_selects_witness:
  "exFormat137 \<in> set (narrowedFormats exInClass exVideo [])
   \<and> exInClass (MimeType exFormat137) ''video''
   \<and> AudioChannels exFormat137 = 0
   \<and> ''hd1080'' \<noteq> [] \<and> exQMatch exFormat137 ''hd1080''
   \<and> exFormat140 \<in> set (narrowedFormats exInClass exVideo [])
   \<and> exInClass (MimeType exFormat140) ''audio''
   \<and> (\<exists>vf af. getVideoAudioFormats exInClass exQMatch exBefore exVideo ''hd1080'' [] = Inr (vf, af)
           \<and> exInClass (MimeType vf) ''video'' \<and> AudioChannels vf = 0
           \<and> exInClass (MimeType af) ''audio''
           \<and> vf \<in> set (Formats exVideo) \<and> af \<in> set (Formats exVideo))"
proof -
  have h1: "exFormat137 \<in> set (narrowedFormats exInClass exVideo [])"
    by (simp add: narrowedFormats_def exVideo_def)
  have h2: "exInClass (MimeType exFormat137) ''video''"
    by (simp add: exInClass_def exFormat137_def)
  have h3: "AudioChannels exFormat137 = 0"
    by (simp add: exFormat137_def)
  have h4: "''hd1080'' \<noteq> [] \<longrightarrow> exQMatch exFormat137 ''hd1080''"
    by (simp add: exQMatch_def exFormat137_def)
  have h5: "exFormat140 \<in> set (narrowedFormats exInClass exVideo [])"
    by (simp add: narrowedFormats_def exVideo_def)
  have h6: "exInClass (MimeType exFormat140) ''audio''"
    by (simp add: exInClass_def exFormat140_def)
  from getVideoAudioFormats_selects [where inClass = exInClass and qmatch = exQMatch
      and before = exBefore and v = exVideo and quality = "''hd1080''" and mimetype = "[]"
      and f = exFormat137 and g = exFormat140, OF h1 h2 h3 h4 h5 h6]
  show ?thesis using h1 h2 h3 h4 h5 h6 by simp
qed

text \<open>
  C2. Whenever the filtered video candidate list is empty, \<open>getVideoAudioFormats\<close>
  fails with the error "no video format found after filtering", whatever the audio
  candidates are: the check of \<open>videoFormat\<close> (line 186) comes before the check of
  \<open>audioFormat\<close> (line 190), so with both lists empty the video error is the one returned.
\<close>

theorem getVideoAudioFormats_video_error_first:
  assumes "videoCandidates inClass qmatch v quality mimetype = []"
  shows "getVideoAudioFormats inClass qmatch before v quality mimetype
           = Inl (Errorf ''no video format found after filtering'')"
  using assms by (simp add: getVideoAudioFormats_def firstSorted_def)

theorem getVideoAudioFormats_video_error_first_witness:
  "videoCandidates exInClass exQMatch exVideo ''hd2160'' [] = []
   \<and> audioCandidates exInClass exVideo [] = [exFormat140]
   \<and> getVideoAudioFormats exInClass exQMatch exBefore exVideo ''hd2160'' []
       = Inl (Errorf ''no video format found after filtering'')
   \<and> videoCandidates exInClass exQMatch (exVideo\<lparr>Formats := []\<rparr>) [] [] = []
   \<and> audioCandidates exInClass (exVideo\<lparr>Formats := []\<rparr>) [] = []
   \<and> getVideoAudioFormats exInClass exQMatch exBefore (exVideo\<lparr>Formats := []\<rparr>) [] []
       = Inl (Errorf ''no video format found after filtering'')"
proof -
  have h1: "videoCandidates exInClass exQMatch exVideo ''hd2160'' [] = []"
    by (simp add: videoCandidates_def narrowedFormats_def FormatList_AudioChannels_def
        FormatList_Type_def FormatList_Quality_def exVideo_def exInClass_def exQMatch_def
        exFormat18_def exFormat22_def exFormat137_def exFormat140_def)
  have h2: "audioCandidates exInClass exVideo [] = [exFormat140]"
    by (simp add: audioCandidates_def narrowedFormats_def FormatList_Type_def exVideo_def
        exInClass_def exFormat18_def exFormat22_def exFormat137_def exFormat140_def)
  have h3: "videoCandidates exInClass exQMatch (exVideo\<lparr>Formats := []\<rparr>) [] [] = []"
    by (simp add: videoCandidates_def narrowedFormats_def FormatList_AudioChannels_def
        FormatList_Type_def)
  have h4: "audioCandidates exInClass (exVideo\<lparr>Formats := []\<rparr>) [] = []"
    by (simp add: audioCandidates_def narrowedFormats_def FormatList_Type_def)
  show ?thesis
    using h1 h2 h3 h4
      getVideoAudioFormats_video_error_first [OF h1, where before = exBefore]
      getVideoAudioFormats_video_error_first [OF h3, where before = exBefore]
    by simp
qed

text \<open>
  C7, as the code has it. \<open>getFormatByItag\<close> returns the first format of the catalog
  whose itag equals the id when there is one. When there is none it fails, and the error
  is one fixed value, the same for every catalog and every id: it does not name the
  itag that was looked up.
\<close>

theorem getFormatByItag_lookup:
  "(case getFormatByItag v itag of
      Inr f \<Rightarrow>
        (\<exists>i < length (Formats v). Formats v ! i = f \<and> ItagNo f = itag
            \<and> (\<forall>j < i. ItagNo (Formats v ! j) \<noteq> itag))
    | Inl e \<Rightarrow>
        (\<forall>g \<in> set (Formats v). ItagNo g \<noteq> itag)
        \<and> (\<forall>v' itag'. isl (getFormatByItag v' itag') \<longrightarrow> getFormatByItag v' itag' = Inl e))"
proof (cases "find (\<lambda>f. ItagNo f = itag) (Formats v)")
  case None
  then have absent: "\<forall>g \<in> set (Formats v). ItagNo g \<noteq> itag"
    by (simp add: find_None_iff)
  have fixed: "\<forall>v' itag'. isl (getFormatByItag v' itag')
      \<longrightarrow> getFormatByItag v' itag' = Inl (Errorf ''no audio format found'')"
    by (simp add: getFormatByItag_def FormatList_FindByItag_def split: option.splits)
  from None have "getFormatByItag v itag = Inl (Errorf ''no audio format found'')"
    by (simp add: getFormatByItag_def FormatList_FindByItag_def)
  with absent fixed show ?thesis by simp
next
  case (Some f)
  then have "\<exists>i < length (Formats v). Formats v ! i = f \<and> ItagNo f = itag
            \<and> (\<forall>j < i. ItagNo (Formats v ! j) \<noteq> itag)"
    by (auto simp: find_Some_iff)
  moreover from Some have "getFormatByItag v itag = Inr f"
    by (simp add: getFormatByItag_def FormatList_FindByItag_def)
  ultimately show ?thesis by simp
qed

theorem getFormatByItag_lookup_witness:
  "getFormatByItag exCatalog 22 = Inr exFormat22
   \<and> (\<exists>i < length (Formats exCatalog). Formats exCatalog ! i = exFormat22 \<and> ItagNo exFormat22 = 22
            \<and> (\<forall>j < i. ItagNo (Formats exCatalog ! j) \<noteq> 22))
   \<and> isl (getFormatByItag exCatalog 99)
   \<and> 99 \<notin> ItagNo ` set (Formats exCatalog)"
proof -
  have r22: "getFormatByItag exCatalog 22 = Inr exFormat22"
    by (simp add: getFormatByItag_def FormatList_FindByItag_def exCatalog_def
        exFormat18_def exFormat22_def)
  have r99: "getFormatByItag exCatalog 99 = Inl (Errorf ''no audio format found'')"
    by (simp add: getFormatByItag_def FormatList_FindByItag_def exCatalog_def
        exFormat18_def exFormat22_def exFormat140_def)
  show ?thesis
    using r22 r99 getFormatByItag_lookup [of exCatalog 22] getFormatByItag_lookup [of exCatalog 99]
    by auto
qed

text \<open>
  C7 as the spec states it fails on the error: on the catalog with itags 18, 22 and 140
  the lookups of 99 and of 98 fail with the same error, whose message is
  "no audio format found" and holds neither id.
\<close>

theorem getFormatByItag_error_names_no_itag:
  "getFormatByItag exCatalog 99 = Inl (Errorf ''no audio format found'')
   \<and> getFormatByItag exCatalog 98 = getFormatByItag exCatalog 99"
  by (simp add: getFormatByItag_def FormatList_FindByItag_def exCatalog_def
      exFormat18_def exFormat22_def exFormat140_def)

section \<open>Properties of the copy\<close>

lemma File_Write_events: "File_Write E name p w = (n, err, w') \<Longrightarrow> events w' = events w \<and> dirs w' = dirs w \<and> ffmpegCheck w' = ffmpegCheck w"
  by (auto simp: File_Write_def Let_def split: option.splits if_splits)

lemma File_Write_other: "File_Write E name p w = (n, err, w') \<Longrightarrow> q \<noteq> name \<Longrightarrow> files w' q = files w q"
  by (auto simp: File_Write_def Let_def split: option.splits if_splits)

lemma File_Write_dom: "File_Write E name p w = (n, err, w') \<Longrightarrow> (files w' q = None) = (files w q = None)"
  by (auto simp: File_Write_def Let_def split: option.splits if_splits)

lemma File_Write_content:
  assumes "File_Write E name p w = (n, err, w')" and "files w name = Some d"
  shows "n \<le> length p \<and> files w' name = Some (d @ take n p) \<and> (err = None \<longrightarrow> n = length p)"
  using assms by (auto simp: File_Write_def Let_def split: option.splits if_splits)

lemma MultiWriter_Write_content:
  assumes "MultiWriter_Write E out p (w, st) = (err, w', st')" and "files w out = Some d"
  shows "\<exists>n \<le> length p. files w' out = Some (d @ take n p)
           \<and> pbar st' = pbar st \<and> contentLength (prog st') = contentLength (prog st)
           \<and> (err = None \<longrightarrow> n = length p \<and> totalWrittenBytes (prog st') = totalWrittenBytes (prog st) + length p)
           \<and> (err \<noteq> None \<longrightarrow> totalWrittenBytes (prog st') = totalWrittenBytes (prog st))"
proof (cases "File_Write E out p w")
  case (fields n e w1)
  from File_Write_content [OF fields assms(2)]
  have c: "n \<le> length p" "files w1 out = Some (d @ take n p)" "e = None \<longrightarrow> n = length p" by auto
  show ?thesis
    using assms(1) fields c
    by (auto simp: MultiWriter_Write_def progress_Write_def split: option.splits if_splits)
qed


lemma MultiWriter_Write_frame:
  assumes "MultiWriter_Write E out p (w, st) = (err, w', st')"
  shows "events w' = events w \<and> dirs w' = dirs w \<and> ffmpegCheck w' = ffmpegCheck w
           \<and> (\<forall>q. q \<noteq> out \<longrightarrow> files w' q = files w q)
           \<and> (\<forall>q. (files w' q = None) = (files w q = None))"
proof (cases "File_Write E out p w")
  case (fields n e w1)
  note a = File_Write_events [OF fields]
  have b: "\<forall>q. q \<noteq> out \<longrightarrow> files w1 q = files w q"
    using File_Write_other [OF fields] by blast
  have c: "\<forall>q. (files w1 q = None) = (files w q = None)"
    using File_Write_dom [OF fields] by blast
  have "w' = w1"
    using assms fields
    by (auto simp: MultiWriter_Write_def progress_Write_def split: option.splits if_splits)
  with a b c show ?thesis by simp
qed

lemma io_Copy_frame:
  "io_Copy E out cs fin (w, st) = (err, w', st') \<Longrightarrow>
     events w' = events w \<and> dirs w' = dirs w \<and> ffmpegCheck w' = ffmpegCheck w
     \<and> (\<forall>q. q \<noteq> out \<longrightarrow> files w' q = files w q)
     \<and> (\<forall>q. (files w' q = None) = (files w q = None))"
proof (induction cs arbitrary: w st)
  case Nil
  then show ?case by simp
next
  case (Cons c cs)
  show ?case
  proof (cases "length c > 0")
    case False
    with Cons.prems have "io_Copy E out cs fin (w, st) = (err, w', st')"
      by (simp add: ProxyReader_Read_def)
    from Cons.IH [OF this] show ?thesis .
  next
    case True
    obtain e w2 st2 where mw: "MultiWriter_Write E out c (w, st) = (e, w2, st2)"
      by (cases "MultiWriter_Write E out c (w, st)") auto
    note f = MultiWriter_Write_frame [OF mw]
    show ?thesis
    proof (cases e)
      case (Some x)
      with Cons.prems True mw have "w' = w2" by (simp add: ProxyReader_Read_def)
      with f show ?thesis by simp
    next
      case None
      with Cons.prems True mw have "io_Copy E out cs fin (w2, st2) = (err, w', st')"
        by (simp add: ProxyReader_Read_def)
      from Cons.IH [OF this] f show ?thesis by simp
    qed
  qed
qed

lemma io_Copy_content:
  "files w out = Some d \<Longrightarrow> io_Copy E out cs fin (w, st) = (err, w', st') \<Longrightarrow>
     \<exists>k \<le> length (concat cs). files w' out = Some (d @ take k (concat cs))
        \<and> totalWrittenBytes (prog st) \<le> totalWrittenBytes (prog st')
        \<and> totalWrittenBytes (prog st') \<le> totalWrittenBytes (prog st) + k
        \<and> (err = None \<longrightarrow> k = length (concat cs) \<and> fin = None
              \<and> totalWrittenBytes (prog st') = totalWrittenBytes (prog st) + k)"
proof (induction cs arbitrary: w st d)
  case Nil
  then show ?case by auto
next
  case (Cons c cs)
  show ?case
  proof (cases "length c > 0")
    case False
    with Cons.prems have "io_Copy E out cs fin (w, st) = (err, w', st')"
      by (simp add: ProxyReader_Read_def)
    from Cons.IH [OF Cons.prems(1) this] False show ?thesis by auto
  next
    case True
    obtain e w2 st2 where mw: "MultiWriter_Write E out c (w, st) = (e, w2, st2)"
      by (cases "MultiWriter_Write E out c (w, st)") auto
    from MultiWriter_Write_content [OF mw Cons.prems(1)]
    obtain n where n: "n \<le> length c" "files w2 out = Some (d @ take n c)"
      "e = None \<longrightarrow> n = length c \<and> totalWrittenBytes (prog st2) = totalWrittenBytes (prog st) + length c"
      "e \<noteq> None \<longrightarrow> totalWrittenBytes (prog st2) = totalWrittenBytes (prog st)"
      by blast
    show ?thesis
    proof (cases e)
      case (Some x)
      with Cons.prems True mw have r: "err = Some x" "w' = w2" "st' = st2"
        by (simp_all add: ProxyReader_Read_def)
      have "n \<le> length (concat (c # cs))" using n(1) by simp
      moreover have "take n (concat (c # cs)) = take n c" using n(1) by simp
      ultimately show ?thesis using r n Some
        by (intro exI [of _ n]) simp
    next
      case None
      with Cons.prems True mw have rec: "io_Copy E out cs fin (w2, st2) = (err, w', st')"
        by (simp add: ProxyReader_Read_def)
      from None n have full: "n = length c" "files w2 out = Some (d @ c)"
        "totalWrittenBytes (prog st2) = totalWrittenBytes (prog st) + length c"
        by simp_all
      from Cons.IH [OF full(2) rec]
      obtain k where k: "k \<le> length (concat cs)" "files w' out = Some ((d @ c) @ take k (concat cs))"
        "totalWrittenBytes (prog st2) \<le> totalWrittenBytes (prog st')"
        "totalWrittenBytes (prog st') \<le> totalWrittenBytes (prog st2) + k"
        "err = None \<longrightarrow> k = length (concat cs) \<and> fin = None
              \<and> totalWrittenBytes (prog st') = totalWrittenBytes (prog st2) + k"
        by blast
      have "take (length c + k) (concat (c # cs)) = c @ take k (concat cs)" by simp
      then show ?thesis using k full
        by (intro exI [of _ "length c + k"]) simp
    qed
  qed
qed

lemma io_Copy_bar:
  "io_Copy E out cs fin (w, st) = (err, w', st') \<Longrightarrow>
     pbar st' = pbar st \<and> contentLength (prog st') = contentLength (prog st)"
proof (induction cs arbitrary: w st)
  case Nil
  then show ?case by simp
next
  case (Cons c cs)
  show ?case
  proof (cases "length c > 0")
    case False
    with Cons.prems have "io_Copy E out cs fin (w, st) = (err, w', st')"
      by (simp add: ProxyReader_Read_def)
    from Cons.IH [OF this] show ?thesis by simp
  next
    case True
    obtain e w2 st2 where mw: "MultiWriter_Write E out c (w, st) = (e, w2, st2)"
      by (cases "MultiWriter_Write E out c (w, st)") auto
    have keep: "pbar st2 = pbar st" "contentLength (prog st2) = contentLength (prog st)"
      using mw
      by (auto simp: MultiWriter_Write_def progress_Write_def split: prod.splits option.splits if_splits)
    show ?thesis
    proof (cases e)
      case (Some x)
      with Cons.prems True mw have "st' = st2" by (simp add: ProxyReader_Read_def)
      with keep show ?thesis by simp
    next
      case None
      with Cons.prems True mw have "io_Copy E out cs fin (w2, st2) = (err, w', st')"
        by (simp add: ProxyReader_Read_def)
      from Cons.IH [OF this] keep show ?thesis by simp
    qed
  qed
qed

lemma io_Copy_unlimited:
  "writeLimit E out = None \<Longrightarrow> fst (io_Copy E out cs fin (w, st)) = fin"
proof (induction cs arbitrary: w st)
  case Nil
  then show ?case by simp
next
  case (Cons c cs)
  obtain e w2 st2 where mw: "MultiWriter_Write E out c (w, st) = (e, w2, st2)"
    by (cases "MultiWriter_Write E out c (w, st)") auto
  have "e = None"
    using mw Cons.prems
    by (auto simp: MultiWriter_Write_def File_Write_def progress_Write_def
        split: option.splits if_splits)
  with mw Cons.IH [OF Cons.prems] show ?case by (simp add: ProxyReader_Read_def)
qed

lemma videoDLWorker_open_fail:
  "GetStreamContext E v f = Inl e \<Longrightarrow>
     videoDLWorker E out v f w = (Some e, None, logEvent (EvGetStream (ID v) (ItagNo f)) w)"
  by (simp add: videoDLWorker_def)

lemma videoDLWorker_opened:
  assumes "GetStreamContext E v f = Inr (s, n)"
  shows "\<exists>st0. prog st0 = \<lparr>contentLength = float64_of_int64 n, totalWrittenBytes = 0\<rparr>
           \<and> pbar st0 = AddBar (int64_of_float64 E (float64_of_int64 n))
           \<and> videoDLWorker E out v f w
                = (case io_Copy E out (chunks s) (finalErr s)
                          (logEvent (EvGetStream (ID v) (ItagNo f)) w, st0) of
                     (e, w2, st) \<Rightarrow> (e, Some st, w2))"
proof -
  let ?st0 = "\<lparr>prog = \<lparr>contentLength = float64_of_int64 n, totalWrittenBytes = 0\<rparr>,
               pbar = AddBar (int64_of_float64 E (float64_of_int64 n))\<rparr>"
  have "videoDLWorker E out v f w
          = (case io_Copy E out (chunks s) (finalErr s)
                    (logEvent (EvGetStream (ID v) (ItagNo f)) w, ?st0) of
               (e, w2, st) \<Rightarrow> (e, Some st, w2))"
    using assms by (auto simp: videoDLWorker_def Let_def split: prod.splits option.splits)
  then show ?thesis by (intro exI [of _ ?st0]) simp
qed

lemma videoDLWorker_frame:
  assumes "videoDLWorker E out v f w = (err, sto, w')"
  shows "events w' = events w @ [EvGetStream (ID v) (ItagNo f)] \<and> dirs w' = dirs w
           \<and> ffmpegCheck w' = ffmpegCheck w
           \<and> (\<forall>q. q \<noteq> out \<longrightarrow> files w' q = files w q)
           \<and> (\<forall>q. (files w' q = None) = (files w q = None))"
proof (cases "GetStreamContext E v f")
  case (Inl e)
  with assms show ?thesis by (auto simp: videoDLWorker_def logEvent_def)
next
  case (Inr p)
  obtain s n where p: "p = (s, n)" by (cases p)
  define w1 where "w1 = logEvent (EvGetStream (ID v) (ItagNo f)) w"
  from videoDLWorker_opened [OF Inr [unfolded p], of out w]
  obtain st0 where run: "videoDLWorker E out v f w
      = (case io_Copy E out (chunks s) (finalErr s) (w1, st0) of (e, w2, st) \<Rightarrow> (e, Some st, w2))"
    unfolding w1_def by (elim exE conjE)
  obtain e w2 st where c: "io_Copy E out (chunks s) (finalErr s) (w1, st0) = (e, w2, st)"
    by (cases "io_Copy E out (chunks s) (finalErr s) (w1, st0)") auto
  have "w' = w2" using assms run c by simp
  with io_Copy_frame [OF c] show ?thesis by (simp add: w1_def logEvent_def)
qed

lemma videoDLWorker_unlimited:
  assumes "GetStreamContext E v f = Inr (s, n)" and "writeLimit E out = None"
  shows "fst (videoDLWorker E out v f w) = finalErr s"
proof -
  define w1 where "w1 = logEvent (EvGetStream (ID v) (ItagNo f)) w"
  from videoDLWorker_opened [OF assms(1), of out w]
  obtain st0 where run: "videoDLWorker E out v f w
      = (case io_Copy E out (chunks s) (finalErr s) (w1, st0) of (e, w2, st) \<Rightarrow> (e, Some st, w2))"
    unfolding w1_def by (elim exE conjE)
  obtain e w2 st where c: "io_Copy E out (chunks s) (finalErr s) (w1, st0) = (e, w2, st)"
    by (cases "io_Copy E out (chunks s) (finalErr s) (w1, st0)") auto
  from io_Copy_unlimited [OF assms(2), of "chunks s" "finalErr s" w1 st0] c
  have "e = finalErr s" by simp
  then show ?thesis using run c by simp
qed

text \<open>
  C4. When the stream of a format was opened and \<open>out\<close> is an open file holding \<open>d\<close>,
  \<open>videoDLWorker\<close> leaves in the file \<open>d\<close> followed by a prefix of the bytes of the
  stream, in the order they were read: nothing is reordered, changed or inserted, and
  the progress counter never exceeds the number of bytes delivered. When it returns no
  error the file holds \<open>d\<close> followed by all the bytes of the stream, and the progress
  counter equals their number. It does return no error whenever the stream ends with
  \<open>io.EOF\<close> and no write to the file fails.
\<close>

theorem videoDLWorker_delivers:
  assumes opened: "GetStreamContext E v f = Inr (s, n)"
    and fresh: "files w out = Some d"
  shows "\<exists>st k. fst (snd (videoDLWorker E out v f w)) = Some st
           \<and> k \<le> length (concat (chunks s))
           \<and> files (snd (snd (videoDLWorker E out v f w))) out = Some (d @ take k (concat (chunks s)))
           \<and> totalWrittenBytes (prog st) \<le> k
           \<and> (fst (videoDLWorker E out v f w) = None \<longrightarrow>
                 files (snd (snd (videoDLWorker E out v f w))) out = Some (d @ concat (chunks s))
                 \<and> totalWrittenBytes (prog st) = length (concat (chunks s))
                 \<and> finalErr s = None)
           \<and> (finalErr s = None \<and> writeLimit E out = None \<longrightarrow>
                 fst (videoDLWorker E out v f w) = None)"
proof -
  define w1 where "w1 = logEvent (EvGetStream (ID v) (ItagNo f)) w"
  from videoDLWorker_opened [OF opened, of out w]
  obtain st0 where z: "prog st0 = \<lparr>contentLength = float64_of_int64 n, totalWrittenBytes = 0\<rparr>"
    and run0: "videoDLWorker E out v f w
      = (case io_Copy E out (chunks s) (finalErr s) (w1, st0) of (e, w2, st) \<Rightarrow> (e, Some st, w2))"
    unfolding w1_def by (elim exE conjE)
  obtain e w2 st where c: "io_Copy E out (chunks s) (finalErr s) (w1, st0) = (e, w2, st)"
    by (cases "io_Copy E out (chunks s) (finalErr s) (w1, st0)") auto
  have run: "videoDLWorker E out v f w = (e, Some st, w2)" using run0 c by simp
  have f1: "files w1 out = Some d" using fresh by (simp add: w1_def logEvent_def)
  from io_Copy_content [OF f1 c] z
  obtain k where k: "k \<le> length (concat (chunks s))"
    "files w2 out = Some (d @ take k (concat (chunks s)))"
    "totalWrittenBytes (prog st) \<le> k"
    "e = None \<longrightarrow> k = length (concat (chunks s)) \<and> finalErr s = None
        \<and> totalWrittenBytes (prog st) = k"
    by auto
  have ok: "finalErr s = None \<and> writeLimit E out = None \<longrightarrow> fst (videoDLWorker E out v f w) = None"
    using videoDLWorker_unlimited [OF opened, of out w] by auto
  show ?thesis
    using run k ok by (intro exI [of _ st] exI [of _ k]) auto
qed

theorem videoDLWorker_delivers_witness:
  "GetStreamContext exEnv exVideo exFormat18 = Inr (exStream, 5)
   \<and> files (exWorld\<lparr>files := [''out.mp4'' \<mapsto> []]\<rparr>) ''out.mp4'' = Some []
   \<and> finalErr exStream = None
   \<and> writeLimit exEnv ''out.mp4'' = None
   \<and> fst (videoDLWorker exEnv ''out.mp4'' exVideo exFormat18 (exWorld\<lparr>files := [''out.mp4'' \<mapsto> []]\<rparr>)) = None
   \<and> files (snd (snd (videoDLWorker exEnv ''out.mp4'' exVideo exFormat18
         (exWorld\<lparr>files := [''out.mp4'' \<mapsto> []]\<rparr>)))) ''out.mp4'' = Some [1, 2, 3, 4, 5]
   \<and> map_option (\<lambda>st. totalWrittenBytes (prog st))
         (fst (snd (videoDLWorker exEnv ''out.mp4'' exVideo exFormat18
            (exWorld\<lparr>files := [''out.mp4'' \<mapsto> []]\<rparr>)))) = Some 5"
proof -
  let ?w = "exWorld\<lparr>files := [''out.mp4'' \<mapsto> []]\<rparr>"
  have h1: "GetStreamContext exEnv exVideo exFormat18 = Inr (exStream, 5)"
    by (simp add: exEnv_def)
  have h2: "files ?w ''out.mp4'' = Some []" by simp
  have h3: "finalErr exStream = None" by (simp add: exStream_def)
  have lim: "writeLimit exEnv ''out.mp4'' = None" by (simp add: exEnv_def)
  have bytes: "concat (chunks exStream) = [1, 2, 3, 4, 5]" by (simp add: exStream_def)
  from videoDLWorker_delivers [OF h1 h2] h3 lim bytes
  show ?thesis using h1 h2 by auto
qed

section \<open>Properties of the output path and of the single downloads\<close>

lemma foldl_mkdir_present:
  "d p \<noteq> None \<Longrightarrow> foldl (mkdirIfAbsent perm) d ps p = d p"
  by (induction ps arbitrary: d) (auto simp: mkdirIfAbsent_def split: option.splits)

lemma foldl_mkdir_absent:
  "d p = None \<Longrightarrow> foldl (mkdirIfAbsent perm) d ps p = (if p \<in> set ps then Some perm else None)"
proof (induction ps arbitrary: d)
  case Nil
  then show ?case by simp
next
  case (Cons q qs)
  show ?case
  proof (cases "q = p")
    case True
    with Cons.prems have "mkdirIfAbsent perm d q p = Some perm"
      by (simp add: mkdirIfAbsent_def)
    then have "foldl (mkdirIfAbsent perm) (mkdirIfAbsent perm d q) qs p = Some perm"
      using foldl_mkdir_present [of "mkdirIfAbsent perm d q" p perm qs] by simp
    with True show ?thesis by simp
  next
    case False
    with Cons.prems have "mkdirIfAbsent perm d q p = None"
      by (simp add: mkdirIfAbsent_def split: option.splits)
    from Cons.IH [where d = "mkdirIfAbsent perm d q"] this False show ?thesis by auto
  qed
qed

lemma getOutputFile_frame:
  assumes "getOutputFile E dl v f name w = (r, w')"
  shows "files w' = files w \<and> ffmpegCheck w' = ffmpegCheck w
           \<and> events w' = events w @ (if OutputDir dl \<noteq> [] then [EvMkdirAll (OutputDir dl) 493] else [])"
  using assms
  by (auto simp: getOutputFile_def os_MkdirAll_def logEvent_def Let_def split: option.splits if_splits)

text \<open>
  C8. Let \<open>name\<close> be the explicit name, or, when that is empty, the sanitized title
  followed by the extension picked for the format's MIME type (the fallback extension
  when the table has no entry for the subtype). With no output directory,
  \<open>getOutputFile\<close> returns \<open>name\<close> and touches nothing. With an output directory it
  calls \<open>os.MkdirAll\<close> once on it with the bits 0755: when that fails the error is
  returned; when it succeeds the directory and its missing ancestors exist with the bits
  0755, directories that existed keep theirs, no file changes, and the result is the
  directory joined with \<open>name\<close>.
\<close>

theorem getOutputFile_resolves:
  assumes name: "name = (if outputFile = []
                         then SanitizeFilename E (Title v) @ pickIdealFileExtension E (MimeType format)
                         else outputFile)"
  shows "(map_of (extensionTable E) (mediaSubtype E (MimeType format)) = None
            \<longrightarrow> pickIdealFileExtension E (MimeType format) = defaultExtension E)
       \<and> (OutputDir dl = [] \<longrightarrow> getOutputFile E dl v format outputFile w = (Inr name, w))
       \<and> (OutputDir dl \<noteq> [] \<longrightarrow> mkdirAllResult E (OutputDir dl) = Some err
            \<longrightarrow> fst (getOutputFile E dl v format outputFile w) = Inl err)
       \<and> (OutputDir dl \<noteq> [] \<longrightarrow> mkdirAllResult E (OutputDir dl) = None
            \<longrightarrow> (\<exists>w'. getOutputFile E dl v format outputFile w
                        = (Inr (pathJoin E (OutputDir dl) name), w')
                  \<and> events w' = events w @ [EvMkdirAll (OutputDir dl) 493]
                  \<and> files w' = files w
                  \<and> (\<forall>p. dirs w p \<noteq> None \<longrightarrow> dirs w' p = dirs w p)
                  \<and> (\<forall>p. dirs w p = None \<longrightarrow>
                        dirs w' p = (if p \<in> set (pathParents E (OutputDir dl) @ [OutputDir dl])
                                     then Some 493 else None))))"
proof (intro conjI impI)
  assume "map_of (extensionTable E) (mediaSubtype E (MimeType format)) = None"
  then show "pickIdealFileExtension E (MimeType format) = defaultExtension E"
    by (simp add: pickIdealFileExtension_def)
next
  assume "OutputDir dl = []"
  then show "getOutputFile E dl v format outputFile w = (Inr name, w)"
    using name by (simp add: getOutputFile_def)
next
  assume "OutputDir dl \<noteq> []" "mkdirAllResult E (OutputDir dl) = Some err"
  then show "fst (getOutputFile E dl v format outputFile w) = Inl err"
    by (simp add: getOutputFile_def os_MkdirAll_def Let_def)
next
  assume d: "OutputDir dl \<noteq> []" and ok: "mkdirAllResult E (OutputDir dl) = None"
  let ?ps = "pathParents E (OutputDir dl) @ [OutputDir dl]"
  let ?w' = "(logEvent (EvMkdirAll (OutputDir dl) 493) w)
               \<lparr>dirs := foldl (mkdirIfAbsent 493) (dirs w) ?ps\<rparr>"
  have run: "getOutputFile E dl v format outputFile w = (Inr (pathJoin E (OutputDir dl) name), ?w')"
    using d ok name by (simp add: getOutputFile_def os_MkdirAll_def Let_def logEvent_def)
  have old: "\<forall>p. dirs w p \<noteq> None \<longrightarrow> dirs ?w' p = dirs w p"
    by (simp add: foldl_mkdir_present del: foldl_append)
  have new: "\<forall>p. dirs w p = None \<longrightarrow> dirs ?w' p = (if p \<in> set ?ps then Some 493 else None)"
    by (simp add: foldl_mkdir_absent del: foldl_append)
  have ev: "events ?w' = events w @ [EvMkdirAll (OutputDir dl) 493]" "files ?w' = files w"
    by (simp_all add: logEvent_def)
  show "\<exists>w'. getOutputFile E dl v format outputFile w = (Inr (pathJoin E (OutputDir dl) name), w')
                  \<and> events w' = events w @ [EvMkdirAll (OutputDir dl) 493]
                  \<and> files w' = files w
                  \<and> (\<forall>p. dirs w p \<noteq> None \<longrightarrow> dirs w' p = dirs w p)
                  \<and> (\<forall>p. dirs w p = None \<longrightarrow>
                        dirs w' p = (if p \<in> set (pathParents E (OutputDir dl) @ [OutputDir dl])
                                     then Some 493 else None))"
    using run old new ev by blast
qed


theorem getOutputFile_resolves_witness:
  "''Test Video.mp4'' = (if ([] :: string) = []
        then SanitizeFilename exEnv (Title exVideo) @ pickIdealFileExtension exEnv (MimeType exFormat18)
        else [])
   \<and> OutputDir exDownloader = []
   \<and> getOutputFile exEnv exDownloader exVideo exFormat18 [] exWorld = (Inr ''Test Video.mp4'', exWorld)
   \<and> OutputDir (exDownloader\<lparr>OutputDir := ''videos/new''\<rparr>) \<noteq> []
   \<and> mkdirAllResult exEnv ''videos/new'' = None
   \<and> fst (getOutputFile exEnv (exDownloader\<lparr>OutputDir := ''videos/new''\<rparr>) exVideo exFormat18 [] exWorld)
        = Inr ''videos/new/Test Video.mp4''
   \<and> dirs (snd (getOutputFile exEnv (exDownloader\<lparr>OutputDir := ''videos/new''\<rparr>) exVideo exFormat18 []
         exWorld)) ''videos'' = Some 493
   \<and> dirs (snd (getOutputFile exEnv (exDownloader\<lparr>OutputDir := ''videos/new''\<rparr>) exVideo exFormat18 []
         exWorld)) ''videos/new'' = Some 493
   \<and> map_of (extensionTable exEnv) (mediaSubtype exEnv ''video/x-flv'') = None
   \<and> pickIdealFileExtension exEnv (MimeType (exFormat18\<lparr>MimeType := ''video/x-flv''\<rparr>)) = ''.mov''"
proof -
  have sub: "exSubtype ''video/mp4'' = ''mp4''" "exSubtype ''video/x-flv'' = ''x-flv''"
    by (simp_all add: exSubtype_def)
  have h: "''Test Video.mp4'' = (if ([] :: string) = []
        then SanitizeFilename exEnv (Title exVideo) @ pickIdealFileExtension exEnv (MimeType exFormat18)
        else [])"
    by (simp add: exEnv_def exVideo_def exFormat18_def pickIdealFileExtension_def sub)
  have d0: "OutputDir exDownloader = []" by (simp add: exDownloader_def)
  have d1: "OutputDir (exDownloader\<lparr>OutputDir := ''videos/new''\<rparr>) \<noteq> []" by simp
  have mk: "mkdirAllResult exEnv ''videos/new'' = None" by (simp add: exEnv_def)
  have tbl: "map_of (extensionTable exEnv) (mediaSubtype exEnv ''video/x-flv'') = None"
    by (simp add: exEnv_def sub)
  have dflt: "defaultExtension exEnv = ''.mov''" by (simp add: exEnv_def)
  have w0: "dirs exWorld ''videos'' = None" "dirs exWorld ''videos/new'' = None"
    by (simp_all add: exWorld_def)
  have par: "pathParents exEnv ''videos/new'' = [''videos'']" "pathJoin exEnv ''videos/new'' ''Test Video.mp4'' = ''videos/new/Test Video.mp4''"
    by (simp_all add: exEnv_def exParents_def)
  note a = getOutputFile_resolves [OF h, where dl = exDownloader and w = exWorld]
  note b = getOutputFile_resolves [OF h, where dl = "exDownloader\<lparr>OutputDir := ''videos/new''\<rparr>"
      and w = exWorld]
  note c = getOutputFile_resolves [OF refl, where E = exEnv
      and format = "exFormat18\<lparr>MimeType := ''video/x-flv''\<rparr>"]
  from a d0 have r1: "getOutputFile exEnv exDownloader exVideo exFormat18 [] exWorld
      = (Inr ''Test Video.mp4'', exWorld)" by simp
  from b d1 mk obtain w' where w':
    "getOutputFile exEnv (exDownloader\<lparr>OutputDir := ''videos/new''\<rparr>) exVideo exFormat18 [] exWorld
       = (Inr (pathJoin exEnv ''videos/new'' ''Test Video.mp4''), w')"
    "\<forall>p. dirs exWorld p = None \<longrightarrow>
        dirs w' p = (if p \<in> set (pathParents exEnv ''videos/new'' @ [''videos/new''])
                     then Some 493 else None)"
    by auto
  from w'(2) w0 par have r2: "dirs w' ''videos'' = Some 493" "dirs w' ''videos/new'' = Some 493"
    by simp_all
  from c tbl dflt have r3:
    "pickIdealFileExtension exEnv (MimeType (exFormat18\<lparr>MimeType := ''video/x-flv''\<rparr>)) = ''.mov''"
    by simp
  show ?thesis using h d0 r1 d1 mk w'(1) par r2 tbl r3 by simp
qed

lemma DownloadByItag_eq_Download:
  "getFormatByItag v itag = Inr format \<Longrightarrow>
     DownloadByItag E dl outputFile v itag w = Download E dl v format outputFile w"
  by (auto simp: DownloadByItag_def Download_def split: prod.splits sum.splits option.splits)

lemma Download_created:
  assumes out: "fst (getOutputFile E dl v format outputFile w) = Inr destFile"
    and cr: "createResult E destFile = None"
  shows "\<exists>w2. files w2 destFile = Some []
           \<and> events w2 = events w @ (if OutputDir dl \<noteq> [] then [EvMkdirAll (OutputDir dl) 493] else [])
                @ [EvCreate destFile]
           \<and> Download E dl v format outputFile w
                = (fst (videoDLWorker E destFile v format w2), snd (snd (videoDLWorker E destFile v format w2)))"
proof -
  obtain w1 where g: "getOutputFile E dl v format outputFile w = (Inr destFile, w1)"
    using out by (cases "getOutputFile E dl v format outputFile w") auto
  note f = getOutputFile_frame [OF g]
  define w2 where "w2 = (logEvent (EvCreate destFile) w1)\<lparr>files := (files w1)(destFile \<mapsto> [])\<rparr>"
  have c: "os_Create E destFile w1 = (None, w2)"
    using cr by (simp add: os_Create_def Let_def w2_def logEvent_def)
  have "Download E dl v format outputFile w
          = (fst (videoDLWorker E destFile v format w2), snd (snd (videoDLWorker E destFile v format w2)))"
    using g c by (simp add: Download_def split: prod.splits)
  moreover have "files w2 destFile = Some []" by (simp add: w2_def)
  moreover have "events w2 = events w @ (if OutputDir dl \<noteq> [] then [EvMkdirAll (OutputDir dl) 493] else [])
                @ [EvCreate destFile]"
    using f by (simp add: w2_def logEvent_def)
  ultimately show ?thesis by blast
qed



text \<open>
  C10. In \<open>Download\<close>, and in \<open>DownloadByItag\<close> once the itag is found, when the
  path is resolved and \<open>os.Create\<close> succeeds, the effects of the call are, in this
  order: the \<open>os.MkdirAll\<close> of the output directory if there is one, the creation (or
  truncation) of the destination, the opening of the stream; nothing is removed, and the
  destination exists when the call returns, whatever the outcome. When opening the
  stream fails, the call returns that error and the destination is left empty.
\<close>

theorem download_leaves_empty_file:
  assumes out: "fst (getOutputFile E dl v format outputFile w) = Inr destFile"
    and cr: "createResult E destFile = None"
    and trace: "trace = events w @ (if OutputDir dl \<noteq> [] then [EvMkdirAll (OutputDir dl) 493] else [])
                  @ [EvCreate destFile, EvGetStream (ID v) (ItagNo format)]"
  shows "events (snd (Download E dl v format outputFile w)) = trace
       \<and> files (snd (Download E dl v format outputFile w)) destFile \<noteq> None
       \<and> (GetStreamContext E v format = Inl e \<longrightarrow>
             fst (Download E dl v format outputFile w) = Some e
             \<and> files (snd (Download E dl v format outputFile w)) destFile = Some [])
       \<and> (getFormatByItag v itag = Inr format \<longrightarrow>
             events (snd (DownloadByItag E dl outputFile v itag w)) = trace
             \<and> files (snd (DownloadByItag E dl outputFile v itag w)) destFile \<noteq> None
             \<and> (GetStreamContext E v format = Inl e \<longrightarrow>
                   fst (DownloadByItag E dl outputFile v itag w) = Some e
                   \<and> files (snd (DownloadByItag E dl outputFile v itag w)) destFile = Some []))"
proof -
  from Download_created [OF out cr]
  obtain w2 where w2: "files w2 destFile = Some []"
    "events w2 = events w @ (if OutputDir dl \<noteq> [] then [EvMkdirAll (OutputDir dl) 493] else [])
                @ [EvCreate destFile]"
    "Download E dl v format outputFile w
       = (fst (videoDLWorker E destFile v format w2), snd (snd (videoDLWorker E destFile v format w2)))"
    by (elim exE conjE)
  obtain err sto w3 where r: "videoDLWorker E destFile v format w2 = (err, sto, w3)"
    by (cases "videoDLWorker E destFile v format w2") auto
  note f = videoDLWorker_frame [OF r]
  have d: "Download E dl v format outputFile w = (err, w3)" using w2(3) r by simp
  have ev: "events (snd (Download E dl v format outputFile w)) = trace"
    using d f w2(2) trace by simp
  have kept: "files (snd (Download E dl v format outputFile w)) destFile \<noteq> None"
    using d f w2(1) by simp
  have fail: "GetStreamContext E v format = Inl e \<longrightarrow>
             fst (Download E dl v format outputFile w) = Some e
             \<and> files (snd (Download E dl v format outputFile w)) destFile = Some []"
  proof
    assume "GetStreamContext E v format = Inl e"
    from videoDLWorker_open_fail [OF this, of destFile w2] r
    have "err = Some e" "w3 = logEvent (EvGetStream (ID v) (ItagNo format)) w2" by simp_all
    with d w2(1) show "fst (Download E dl v format outputFile w) = Some e
             \<and> files (snd (Download E dl v format outputFile w)) destFile = Some []"
      by (simp add: logEvent_def)
  qed
  show ?thesis
  proof (cases "getFormatByItag v itag = Inr format")
    case True
    from DownloadByItag_eq_Download [OF True]
    have "DownloadByItag E dl outputFile v itag w = Download E dl v format outputFile w" .
    with ev kept fail show ?thesis by simp
  next
    case False
    with ev kept fail show ?thesis by simp
  qed
qed

theorem download_leaves_empty_file_witness:
  "fst (getOutputFile (exEnv\<lparr>GetStreamContext := \<lambda>v f. Inl (OSError ''403'')\<rparr>) exDownloader
          exVideo exFormat18 ''out.mp4'' (exWorld\<lparr>files := [''out.mp4'' \<mapsto> [7, 7, 7]]\<rparr>)) = Inr ''out.mp4''
   \<and> createResult (exEnv\<lparr>GetStreamContext := \<lambda>v f. Inl (OSError ''403'')\<rparr>) ''out.mp4'' = None
   \<and> GetStreamContext (exEnv\<lparr>GetStreamContext := \<lambda>v f. Inl (OSError ''403'')\<rparr>) exVideo exFormat18
        = Inl (OSError ''403'')
   \<and> getFormatByItag exVideo 18 = Inr exFormat18
   \<and> fst (Download (exEnv\<lparr>GetStreamContext := \<lambda>v f. Inl (OSError ''403'')\<rparr>) exDownloader
        exVideo exFormat18 ''out.mp4'' (exWorld\<lparr>files := [''out.mp4'' \<mapsto> [7, 7, 7]]\<rparr>))
        = Some (OSError ''403'')
   \<and> files (snd (Download (exEnv\<lparr>GetStreamContext := \<lambda>v f. Inl (OSError ''403'')\<rparr>) exDownloader
        exVideo exFormat18 ''out.mp4'' (exWorld\<lparr>files := [''out.mp4'' \<mapsto> [7, 7, 7]]\<rparr>))) ''out.mp4''
        = Some []
   \<and> events (snd (Download (exEnv\<lparr>GetStreamContext := \<lambda>v f. Inl (OSError ''403'')\<rparr>) exDownloader
        exVideo exFormat18 ''out.mp4'' (exWorld\<lparr>files := [''out.mp4'' \<mapsto> [7, 7, 7]]\<rparr>)))
        = [EvCreate ''out.mp4'', EvGetStream ''abc'' 18]
   \<and> fst (DownloadByItag (exEnv\<lparr>GetStreamContext := \<lambda>v f. Inl (OSError ''403'')\<rparr>) exDownloader
        ''out.mp4'' exVideo 18 (exWorld\<lparr>files := [''out.mp4'' \<mapsto> [7, 7, 7]]\<rparr>)) = Some (OSError ''403'')
   \<and> files (snd (DownloadByItag (exEnv\<lparr>GetStreamContext := \<lambda>v f. Inl (OSError ''403'')\<rparr>) exDownloader
        ''out.mp4'' exVideo 18 (exWorld\<lparr>files := [''out.mp4'' \<mapsto> [7, 7, 7]]\<rparr>))) ''out.mp4'' = Some []"
proof -
  let ?E = "exEnv\<lparr>GetStreamContext := \<lambda>v f. Inl (OSError ''403'')\<rparr>"
  let ?w = "exWorld\<lparr>files := [''out.mp4'' \<mapsto> [7, 7, 7]]\<rparr>"
  have h1: "fst (getOutputFile ?E exDownloader exVideo exFormat18 ''out.mp4'' ?w) = Inr ''out.mp4''"
    by (simp add: getOutputFile_def exDownloader_def)
  have h2: "createResult ?E ''out.mp4'' = None" by (simp add: exEnv_def)
  have h3: "GetStreamContext ?E exVideo exFormat18 = Inl (OSError ''403'')" by simp
  have h4: "getFormatByItag exVideo 18 = Inr exFormat18"
    by (simp add: getFormatByItag_def FormatList_FindByItag_def exVideo_def exFormat18_def)
  have ev: "events ?w @ (if OutputDir exDownloader \<noteq> [] then [EvMkdirAll (OutputDir exDownloader) 493] else [])
              @ [EvCreate ''out.mp4'', EvGetStream (ID exVideo) (ItagNo exFormat18)]
            = [EvCreate ''out.mp4'', EvGetStream ''abc'' 18]"
    by (simp add: exWorld_def exDownloader_def exVideo_def exFormat18_def)
  note t = download_leaves_empty_file [OF h1 h2 refl, where e = "OSError ''403''" and itag = 18]
  from t h3 h4 ev show ?thesis using h1 h2 by simp
qed

section \<open>The progress bar\<close>

lemma bitLength_zero: "bitLength 0 = 0"
  by (subst bitLength.simps) simp

lemma bitLength_pos: "n \<noteq> 0 \<Longrightarrow> bitLength n = Suc (bitLength (n div 2))"
  by (subst bitLength.simps) simp

lemma bitLength_less: "m < 2 ^ k \<Longrightarrow> bitLength m \<le> k"
proof (induction m arbitrary: k rule: bitLength.induct)
  case (1 n)
  show ?case
  proof (cases "n = 0")
    case True
    then show ?thesis by (simp add: bitLength_zero)
  next
    case False
    with "1.prems" obtain j where k: "k = Suc j" by (cases k) auto
    with "1.prems" have "n div 2 < 2 ^ j" by auto
    from "1.IH" [OF False this] have "bitLength (n div 2) \<le> j" .
    then show ?thesis using k by (simp add: bitLength_pos [OF False])
  qed
qed

lemma bitLength_between: "2 ^ k \<le> m \<Longrightarrow> m < 2 ^ Suc k \<Longrightarrow> bitLength m = Suc k"
proof (induction k arbitrary: m)
  case 0
  then have "m = 1" by simp
  then show ?case by (simp add: bitLength_pos bitLength_zero)
next
  case (Suc k)
  then have nz: "m \<noteq> 0" by auto
  from Suc.prems have "2 ^ k \<le> m div 2" "m div 2 < 2 ^ Suc k" by auto
  from Suc.IH [OF this] show ?case by (simp add: bitLength_pos [OF nz])
qed

lemma roundTo53Bits_exact:
  assumes "m \<le> 2 ^ 53"
  shows "roundTo53Bits m = m"
proof (cases "m = 2 ^ 53")
  case True
  have len: "bitLength ((2::nat) ^ 53) = 54" using bitLength_between [of 53 "2 ^ 53"] by simp
  have "roundTo53Bits (2 ^ 53) = (2 ^ 53 div 2) * 2"
    unfolding roundTo53Bits_def len Let_def by simp
  then have "roundTo53Bits (2 ^ 53) = 2 ^ 53" by simp
  with True show ?thesis by simp
next
  case False
  with assms have "m < 2 ^ 53" by simp
  from bitLength_less [OF this] show ?thesis by (simp add: roundTo53Bits_def)
qed

lemma float64_of_int64_exact:
  assumes "- (2 ^ 53) \<le> n" and "n \<le> 2 ^ 53"
  shows "float64_of_int64 n = n"
proof (cases "n < 0")
  case True
  with assms have "nat (- n) \<le> 2 ^ 53" by simp
  from roundTo53Bits_exact [OF this] True show ?thesis by (simp add: float64_of_int64_def)
next
  case False
  with assms have "nat n \<le> 2 ^ 53" by simp
  from roundTo53Bits_exact [OF this] False show ?thesis by (simp add: float64_of_int64_def)
qed

lemma int64_round_trip_exact:
  assumes "- (2 ^ 53) \<le> n" and "n \<le> 2 ^ 53"
  shows "int64_of_float64 E (float64_of_int64 n) = n"
  using assms float64_of_int64_exact [OF assms] by (simp add: int64_of_float64_def)

lemma videoDLWorker_bar:
  assumes "GetStreamContext E v f = Inr (s, n)"
  shows "\<exists>st. fst (snd (videoDLWorker E out v f w)) = Some st
           \<and> contentLength (prog st) = float64_of_int64 n
           \<and> pbar st = AddBar (int64_of_float64 E (float64_of_int64 n))"
proof -
  define w1 where "w1 = logEvent (EvGetStream (ID v) (ItagNo f)) w"
  from videoDLWorker_opened [OF assms, of out w]
  obtain st0 where z: "prog st0 = \<lparr>contentLength = float64_of_int64 n, totalWrittenBytes = 0\<rparr>"
    "pbar st0 = AddBar (int64_of_float64 E (float64_of_int64 n))"
    and run0: "videoDLWorker E out v f w
      = (case io_Copy E out (chunks s) (finalErr s) (w1, st0) of (e, w2, st) \<Rightarrow> (e, Some st, w2))"
    unfolding w1_def by (elim exE conjE)
  obtain e w2 st where c: "io_Copy E out (chunks s) (finalErr s) (w1, st0) = (e, w2, st)"
    by (cases "io_Copy E out (chunks s) (finalErr s) (w1, st0)") auto
  have run: "videoDLWorker E out v f w = (e, Some st, w2)" using run0 c by simp
  from io_Copy_bar [OF c] z
  have "contentLength (prog st) = float64_of_int64 n"
    "pbar st = AddBar (int64_of_float64 E (float64_of_int64 n))"
    by simp_all
  with run show ?thesis by simp
qed

text \<open>
  C9, as the code has it. \<open>videoDLWorker\<close> configures the progress bar in the same way
  for every declared length, 0 included: the width is 64, a counter of KiB and a
  percentage come before the bar, an averaged ETA (90 samples), a separator and an
  averaged speed (60 samples) after it, and the total is the declared length after its
  conversion to \<open>float64\<close> and back, which is the declared length itself when its
  magnitude is at most \<open>2^53\<close>. No branch of the function looks at the declared length,
  and the percentage decorator is always there.
\<close>

theorem videoDLWorker_bar_configuration:
  assumes "GetStreamContext E v f = Inr (s, n)"
  shows "\<exists>st. fst (snd (videoDLWorker E out v f w)) = Some st
           \<and> barTotal (pbar st) = int64_of_float64 E (float64_of_int64 n)
           \<and> (- (2 ^ 53) \<le> n \<and> n \<le> 2 ^ 53 \<longrightarrow> barTotal (pbar st) = n)
           \<and> barWidth (pbar st) = 64
           \<and> prependDecorators (pbar st) = [CountersKibiByte ''% .2f / % .2f'', Percentage WCSyncSpace]
           \<and> appendDecorators (pbar st)
                = [EwmaETA ET_STYLE_GO 90, Name '' ] '', EwmaSpeed UnitKiB ''% .2f'' 60]"
proof -
  from videoDLWorker_bar [OF assms, of out w]
  obtain st where st: "fst (snd (videoDLWorker E out v f w)) = Some st"
    "pbar st = AddBar (int64_of_float64 E (float64_of_int64 n))"
    by blast
  have t: "barTotal (pbar st) = int64_of_float64 E (float64_of_int64 n)" "barWidth (pbar st) = 64"
    "prependDecorators (pbar st) = [CountersKibiByte ''% .2f / % .2f'', Percentage WCSyncSpace]"
    "appendDecorators (pbar st) = [EwmaETA ET_STYLE_GO 90, Name '' ] '', EwmaSpeed UnitKiB ''% .2f'' 60]"
    unfolding st(2) by (simp_all add: AddBar_def)
  have small: "- (2 ^ 53) \<le> n \<and> n \<le> 2 ^ 53 \<longrightarrow> barTotal (pbar st) = n"
    using t(1) int64_round_trip_exact [of n E] by simp
  from st(1) t small show ?thesis by blast
qed

theorem videoDLWorker_bar_configuration_witness:
  "GetStreamContext (exEnv\<lparr>GetStreamContext := \<lambda>v f. Inr (exStream, 0)\<rparr>) exVideo exFormat140
      = Inr (exStream, 0)
   \<and> - (2 ^ 53) \<le> (0::int) \<and> (0::int) \<le> 2 ^ 53
   \<and> (\<exists>st. fst (snd (videoDLWorker (exEnv\<lparr>GetStreamContext := \<lambda>v f. Inr (exStream, 0)\<rparr>) ''a.m4a''
                 exVideo exFormat140 exWorld)) = Some st
           \<and> barTotal (pbar st) = 0
           \<and> barWidth (pbar st) = 64
           \<and> prependDecorators (pbar st) = [CountersKibiByte ''% .2f / % .2f'', Percentage WCSyncSpace]
           \<and> appendDecorators (pbar st)
                = [EwmaETA ET_STYLE_GO 90, Name '' ] '', EwmaSpeed UnitKiB ''% .2f'' 60])
   \<and> GetStreamContext (exEnv\<lparr>GetStreamContext := \<lambda>v f. Inr (exStream, 9007199254740993)\<rparr>)
        exVideo exFormat140 = Inr (exStream, 9007199254740993)
   \<and> (\<exists>st. fst (snd (videoDLWorker (exEnv\<lparr>GetStreamContext := \<lambda>v f. Inr (exStream, 9007199254740993)\<rparr>)
                 ''a.m4a'' exVideo exFormat140 exWorld)) = Some st
           \<and> barTotal (pbar st) = 9007199254740992
           \<and> prependDecorators (pbar st) = [CountersKibiByte ''% .2f / % .2f'', Percentage WCSyncSpace])"
proof -
  have h: "GetStreamContext (exEnv\<lparr>GetStreamContext := \<lambda>v f. Inr (exStream, 0)\<rparr>) exVideo exFormat140
      = Inr (exStream, 0)" by simp
  have r: "- (2 ^ 53) \<le> (0::int)" "(0::int) \<le> 2 ^ 53" by simp_all
  have hb: "GetStreamContext (exEnv\<lparr>GetStreamContext := \<lambda>v f. Inr (exStream, 9007199254740993)\<rparr>)
        exVideo exFormat140 = Inr (exStream, 9007199254740993)" by simp
  have len: "bitLength 9007199254740993 = 54"
    using bitLength_between [of 53 9007199254740993] by simp
  have "roundTo53Bits 9007199254740993 = 9007199254740992"
    unfolding roundTo53Bits_def len Let_def by simp
  then have big: "float64_of_int64 9007199254740993 = 9007199254740992"
    by (simp add: float64_of_int64_def)
  have conv: "int64_of_float64 (exEnv\<lparr>GetStreamContext := \<lambda>v f. Inr (exStream, 9007199254740993)\<rparr>)
                (float64_of_int64 9007199254740993) = 9007199254740992"
    unfolding big by (simp add: int64_of_float64_def)
  from videoDLWorker_bar_configuration [OF h, of "''a.m4a''" exWorld] r
  have a: "\<exists>st. fst (snd (videoDLWorker (exEnv\<lparr>GetStreamContext := \<lambda>v f. Inr (exStream, 0)\<rparr>) ''a.m4a''
                 exVideo exFormat140 exWorld)) = Some st
           \<and> barTotal (pbar st) = 0
           \<and> barWidth (pbar st) = 64
           \<and> prependDecorators (pbar st) = [CountersKibiByte ''% .2f / % .2f'', Percentage WCSyncSpace]
           \<and> appendDecorators (pbar st)
                = [EwmaETA ET_STYLE_GO 90, Name '' ] '', EwmaSpeed UnitKiB ''% .2f'' 60]"
    by auto
  from videoDLWorker_bar_configuration [OF hb, of "''a.m4a''" exWorld] conv
  have b: "\<exists>st. fst (snd (videoDLWorker (exEnv\<lparr>GetStreamContext := \<lambda>v f. Inr (exStream, 9007199254740993)\<rparr>)
                 ''a.m4a'' exVideo exFormat140 exWorld)) = Some st
           \<and> barTotal (pbar st) = 9007199254740992
           \<and> prependDecorators (pbar st) = [CountersKibiByte ''% .2f / % .2f'', Percentage WCSyncSpace]"
    by auto
  from h r a hb b show ?thesis by blast
qed

text \<open>
  C9 as the spec states it fails: for a stream whose declared length is 0 the bar gets
  the total 0 and the percentage decorator, like any other.
\<close>

theorem percentage_configured_for_length_zero:
  "map_option (\<lambda>st. (barTotal (pbar st), prependDecorators (pbar st)))
     (fst (snd (videoDLWorker (exEnv\<lparr>GetStreamContext := \<lambda>v f. Inr (exStream, 0)\<rparr>) ''out.mp4''
                 exVideo exFormat18 (exWorld\<lparr>files := [''out.mp4'' \<mapsto> []]\<rparr>))))
   = Some (0, [CountersKibiByte ''% .2f / % .2f'', Percentage WCSyncSpace])"
proof -
  have h: "GetStreamContext (exEnv\<lparr>GetStreamContext := \<lambda>v f. Inr (exStream, 0)\<rparr>) exVideo exFormat18
      = Inr (exStream, 0)" by simp
  from videoDLWorker_bar [OF h, of "''out.mp4''" "exWorld\<lparr>files := [''out.mp4'' \<mapsto> []]\<rparr>"]
  obtain st where st: "fst (snd (videoDLWorker (exEnv\<lparr>GetStreamContext := \<lambda>v f. Inr (exStream, 0)\<rparr>)
        ''out.mp4'' exVideo exFormat18 (exWorld\<lparr>files := [''out.mp4'' \<mapsto> []]\<rparr>))) = Some st"
    "pbar st = AddBar (int64_of_float64 (exEnv\<lparr>GetStreamContext := \<lambda>v f. Inr (exStream, 0)\<rparr>)
                  (float64_of_int64 0))"
    by blast
  have "int64_of_float64 (exEnv\<lparr>GetStreamContext := \<lambda>v f. Inr (exStream, 0)\<rparr>) (float64_of_int64 0) = 0"
    by (rule int64_round_trip_exact) simp_all
  with st(2) have "barTotal (pbar st) = 0"
    "prependDecorators (pbar st) = [CountersKibiByte ''% .2f / % .2f'', Percentage WCSyncSpace]"
    by (simp_all add: AddBar_def)
  with st(1) show ?thesis by simp
qed

section \<open>Properties of the composite download\<close>

lemma os_CreateTemp_ok:
  "createTempResult E d pat = Inr n \<Longrightarrow>
     os_CreateTemp E d pat w = (Inr n, (logEvent (EvCreateTemp d pat) w)\<lparr>files := (files w)(n \<mapsto> [])\<rparr>)"
  by (simp add: os_CreateTemp_def Let_def logEvent_def)

lemma Cmd_Run_events: "events (snd (Cmd_Run E name args w)) = events w @ [EvExec name args]"
  by (auto simp: Cmd_Run_def Let_def logEvent_def split: prod.splits exec_outcome.splits)

lemma Cmd_Run_ffmpegCheck: "ffmpegCheck (snd (Cmd_Run E name args w)) = ffmpegCheck w"
  by (auto simp: Cmd_Run_def Let_def logEvent_def split: prod.splits exec_outcome.splits)

lemma Cmd_Run_result:
  "fst (Cmd_Run E name args w) =
     (case fst (runCommand E name args (files w)) of
        NotStarted \<Rightarrow> Some (ExecError name)
      | Exited code \<Rightarrow> if code = 0 then None else Some (ExitError code))"
  by (auto simp: Cmd_Run_def Let_def logEvent_def split: prod.splits exec_outcome.splits)

lemma compositeBody_success:
  assumes "compositeBody E v vf af videoFile audioFile destFile w = (None, w')"
  shows "events w' = events w @ [EvGetStream (ID v) (ItagNo vf), EvGetStream (ID v) (ItagNo af),
                                  EvExec ''ffmpeg'' (mergeArgs videoFile audioFile destFile)]"
proof -
  obtain e1 s1 w1 where r1: "videoDLWorker E videoFile v vf w = (e1, s1, w1)"
    by (cases "videoDLWorker E videoFile v vf w") auto
  obtain e2 s2 w2 where r2: "videoDLWorker E audioFile v af w1 = (e2, s2, w2)"
    by (cases "videoDLWorker E audioFile v af w1") auto
  have e1: "e1 = None" using assms r1 by (cases e1) (simp_all add: compositeBody_def)
  have e2: "e2 = None" using assms r1 r2 e1 by (cases e2) (simp_all add: compositeBody_def)
  have run: "Cmd_Run E ''ffmpeg'' (mergeArgs videoFile audioFile destFile) w2 = (None, w')"
    using assms r1 r2 e1 e2 by (simp add: compositeBody_def)
  have "events w' = events w2 @ [EvExec ''ffmpeg'' (mergeArgs videoFile audioFile destFile)]"
    using Cmd_Run_events [of E "''ffmpeg''" "mergeArgs videoFile audioFile destFile" w2] run by simp
  with videoDLWorker_frame [OF r1] videoDLWorker_frame [OF r2] show ?thesis by simp
qed

lemma compositeBody_reaches_ffmpeg:
  assumes sv: "GetStreamContext E v vf = Inr (s1, n1)" "finalErr s1 = None" "writeLimit E videoFile = None"
    and sa: "GetStreamContext E v af = Inr (s2, n2)" "finalErr s2 = None" "writeLimit E audioFile = None"
  shows "\<exists>w2. events w2 = events w @ [EvGetStream (ID v) (ItagNo vf), EvGetStream (ID v) (ItagNo af)]
            \<and> compositeBody E v vf af videoFile audioFile destFile w
                 = Cmd_Run E ''ffmpeg'' (mergeArgs videoFile audioFile destFile) w2"
proof -
  obtain e1 t1 w1 where r1: "videoDLWorker E videoFile v vf w = (e1, t1, w1)"
    by (cases "videoDLWorker E videoFile v vf w") auto
  obtain e2 t2 w2 where r2: "videoDLWorker E audioFile v af w1 = (e2, t2, w2)"
    by (cases "videoDLWorker E audioFile v af w1") auto
  have e1: "e1 = None" using videoDLWorker_unlimited [OF sv(1) sv(3), of w] sv(2) r1 by simp
  have e2: "e2 = None" using videoDLWorker_unlimited [OF sa(1) sa(3), of w1] sa(2) r2 by simp
  have "compositeBody E v vf af videoFile audioFile destFile w
          = Cmd_Run E ''ffmpeg'' (mergeArgs videoFile audioFile destFile) w2"
    using r1 r2 e1 e2 by (simp add: compositeBody_def)
  moreover have "events w2 = events w @ [EvGetStream (ID v) (ItagNo vf), EvGetStream (ID v) (ItagNo af)]"
    using videoDLWorker_frame [OF r1] videoDLWorker_frame [OF r2] by simp
  ultimately show ?thesis by blast
qed

lemma DownloadComposite_staged:
  assumes sel: "getVideoAudioFormats (mimeInClass E) (qualityMatches E) (sortsBefore E) v quality mimetype
                  = Inr (vf, af)"
    and out: "fst (getOutputFile E dl v vf outputFile w) = Inr destFile"
    and tv: "createTempResult E (pathDir E destFile) ''youtube_*.m4v'' = Inr videoFile"
    and ta: "createTempResult E (pathDir E destFile) ''youtube_*.m4a'' = Inr audioFile"
  shows "\<exists>w3. events w3 = events w @ (if OutputDir dl \<noteq> [] then [EvMkdirAll (OutputDir dl) 493] else [])
                   @ [EvCreateTemp (pathDir E destFile) ''youtube_*.m4v'',
                      EvCreateTemp (pathDir E destFile) ''youtube_*.m4a'']
            \<and> files w3 = (files w)(videoFile \<mapsto> [], audioFile \<mapsto> [])
            \<and> DownloadComposite E dl outputFile v quality mimetype w
                 = (fst (compositeBody E v vf af videoFile audioFile destFile w3),
                    os_Remove E videoFile (os_Remove E audioFile
                      (snd (compositeBody E v vf af videoFile audioFile destFile w3))))"
proof -
  obtain w1 where g: "getOutputFile E dl v vf outputFile w = (Inr destFile, w1)"
    using out by (cases "getOutputFile E dl v vf outputFile w") auto
  note f = getOutputFile_frame [OF g]
  define d where "d = pathDir E destFile"
  define w2 where "w2 = (logEvent (EvCreateTemp d ''youtube_*.m4v'') w1)\<lparr>files := (files w1)(videoFile \<mapsto> [])\<rparr>"
  define w3 where "w3 = (logEvent (EvCreateTemp d ''youtube_*.m4a'') w2)\<lparr>files := (files w2)(audioFile \<mapsto> [])\<rparr>"
  have c1: "os_CreateTemp E d ''youtube_*.m4v'' w1 = (Inr videoFile, w2)"
    using os_CreateTemp_ok [of E d "''youtube_*.m4v''" videoFile w1] tv by (simp add: d_def w2_def)
  have c2: "os_CreateTemp E d ''youtube_*.m4a'' w2 = (Inr audioFile, w3)"
    using os_CreateTemp_ok [of E d "''youtube_*.m4a''" audioFile w2] ta by (simp add: d_def w3_def)
  have "DownloadComposite E dl outputFile v quality mimetype w
                 = (fst (compositeBody E v vf af videoFile audioFile destFile w3),
                    os_Remove E videoFile (os_Remove E audioFile
                      (snd (compositeBody E v vf af videoFile audioFile destFile w3))))"
    using sel g c1 c2
    by (simp add: DownloadComposite_def Let_def d_def [symmetric] split: prod.splits)
  moreover have "events w3 = events w @ (if OutputDir dl \<noteq> [] then [EvMkdirAll (OutputDir dl) 493] else [])
                   @ [EvCreateTemp (pathDir E destFile) ''youtube_*.m4v'',
                      EvCreateTemp (pathDir E destFile) ''youtube_*.m4a'']"
    using f by (simp add: w3_def w2_def logEvent_def d_def)
  moreover have "files w3 = (files w)(videoFile \<mapsto> [], audioFile \<mapsto> [])"
    using f by (simp add: w3_def w2_def logEvent_def)
  ultimately show ?thesis by blast
qed

lemma os_Remove_twice:
  "events (os_Remove E a (os_Remove E b w)) = events w @ [EvRemove b, EvRemove a]
   \<and> ffmpegCheck (os_Remove E a (os_Remove E b w)) = ffmpegCheck w"
  by (simp add: os_Remove_def logEvent_def Let_def split: option.splits)





lemma composite_merge_result:
  assumes sel: "getVideoAudioFormats (mimeInClass E) (qualityMatches E) (sortsBefore E) v quality mimetype
                  = Inr (vf, af)"
    and out: "fst (getOutputFile E dl v vf outputFile w) = Inr destFile"
    and tv: "createTempResult E (pathDir E destFile) ''youtube_*.m4v'' = Inr videoFile"
    and ta: "createTempResult E (pathDir E destFile) ''youtube_*.m4a'' = Inr audioFile"
    and sv: "GetStreamContext E v vf = Inr (s1, n1)" "finalErr s1 = None" "writeLimit E videoFile = None"
    and sa: "GetStreamContext E v af = Inr (s2, n2)" "finalErr s2 = None" "writeLimit E audioFile = None"
  shows "\<exists>w5. fst (DownloadComposite E dl outputFile v quality mimetype w)
                 = fst (Cmd_Run E ''ffmpeg'' (mergeArgs videoFile audioFile destFile) w5)
            \<and> events (snd (DownloadComposite E dl outputFile v quality mimetype w))
                 = events w @ (if OutputDir dl \<noteq> [] then [EvMkdirAll (OutputDir dl) 493] else [])
                   @ [EvCreateTemp (pathDir E destFile) ''youtube_*.m4v'',
                      EvCreateTemp (pathDir E destFile) ''youtube_*.m4a'',
                      EvGetStream (ID v) (ItagNo vf), EvGetStream (ID v) (ItagNo af),
                      EvExec ''ffmpeg'' (mergeArgs videoFile audioFile destFile),
                      EvRemove audioFile, EvRemove videoFile]"
proof -
  from DownloadComposite_staged [OF sel out tv ta]
  obtain w3 where w3:
    "events w3 = events w @ (if OutputDir dl \<noteq> [] then [EvMkdirAll (OutputDir dl) 493] else [])
                   @ [EvCreateTemp (pathDir E destFile) ''youtube_*.m4v'',
                      EvCreateTemp (pathDir E destFile) ''youtube_*.m4a'']"
    "DownloadComposite E dl outputFile v quality mimetype w
                 = (fst (compositeBody E v vf af videoFile audioFile destFile w3),
                    os_Remove E videoFile (os_Remove E audioFile
                      (snd (compositeBody E v vf af videoFile audioFile destFile w3))))"
    by (elim exE conjE)
  from compositeBody_reaches_ffmpeg [OF sv sa, of w3 destFile]
  obtain w5 where w5:
    "events w5 = events w3 @ [EvGetStream (ID v) (ItagNo vf), EvGetStream (ID v) (ItagNo af)]"
    "compositeBody E v vf af videoFile audioFile destFile w3
       = Cmd_Run E ''ffmpeg'' (mergeArgs videoFile audioFile destFile) w5"
    by (elim exE conjE)
  have r: "fst (DownloadComposite E dl outputFile v quality mimetype w)
             = fst (Cmd_Run E ''ffmpeg'' (mergeArgs videoFile audioFile destFile) w5)"
    using w3(2) w5(2) by simp
  have "events (snd (DownloadComposite E dl outputFile v quality mimetype w))
          = events (snd (Cmd_Run E ''ffmpeg'' (mergeArgs videoFile audioFile destFile) w5))
              @ [EvRemove audioFile, EvRemove videoFile]"
    using w3(2) w5(2) by (simp add: os_Remove_twice)
  then have "events (snd (DownloadComposite E dl outputFile v quality mimetype w))
          = events w5 @ [EvExec ''ffmpeg'' (mergeArgs videoFile audioFile destFile),
                         EvRemove audioFile, EvRemove videoFile]"
    by (simp add: Cmd_Run_events)
  with r w3(1) w5(1) show ?thesis by (intro exI [of _ w5]) simp
qed

lemma checkFFMPEG_fails:
  assumes "fst (runCommand E ''ffmpeg'' [''-version''] (files w)) \<noteq> Exited 0"
  shows "fst (checkFFMPEG E w) = Some (Errorf ''please check ffmpegCheck is installed correctly'')
       \<and> events (snd (checkFFMPEG E w)) = events w @ [EvExec ''ffmpeg'' [''-version'']]"
proof -
  obtain e w1 where r: "Cmd_Run E ''ffmpeg'' [''-version''] w = (e, w1)"
    by (cases "Cmd_Run E ''ffmpeg'' [''-version''] w") auto
  have "e \<noteq> None"
    using Cmd_Run_result [of E "''ffmpeg''" "[''-version'']" w] r assms
    by (auto split: exec_outcome.splits if_splits)
  then obtain x where x: "e = Some x" by auto
  have ev: "events w1 = events w @ [EvExec ''ffmpeg'' [''-version'']]"
    using Cmd_Run_events [of E "''ffmpeg''" "[''-version'']" w] r by simp
  show ?thesis using r x ev by (simp add: checkFFMPEG_def)
qed

lemma checkFFMPEG_passes:
  assumes "fst (runCommand E ''ffmpeg'' [''-version''] (files w)) = Exited 0"
    and "ffmpegCheck w = None"
  shows "fst (checkFFMPEG E w) = None
       \<and> events (snd (checkFFMPEG E w)) = events w @ [EvExec ''ffmpeg'' [''-version'']]"
proof -
  obtain e w1 where r: "Cmd_Run E ''ffmpeg'' [''-version''] w = (e, w1)"
    by (cases "Cmd_Run E ''ffmpeg'' [''-version''] w") auto
  have e: "e = None"
    using Cmd_Run_result [of E "''ffmpeg''" "[''-version'']" w] r assms(1) by simp
  have ev: "events w1 = events w @ [EvExec ''ffmpeg'' [''-version'']]"
    using Cmd_Run_events [of E "''ffmpeg''" "[''-version'']" w] r by simp
  have chk: "ffmpegCheck w1 = None"
    using Cmd_Run_ffmpegCheck [of E "''ffmpeg''" "[''-version'']" w] r assms(2) by simp
  show ?thesis using r e ev chk by (simp add: checkFFMPEG_def)
qed

lemma download_hd_probe:
  assumes it: "itagStringFlag fl = []"
    and hd: "HasPrefix (outputQualityFlag fl) ''hd''"
    and fetch: "getVideoWithFormat E id0 w = (Inr (video, format), w1)"
  shows "(fst (runCommand E ''ffmpeg'' [''-version''] (files w1)) \<noteq> Exited 0 \<longrightarrow>
            fst (download E fl dl id0 w) = Some (Errorf ''please check ffmpegCheck is installed correctly'')
            \<and> events (snd (download E fl dl id0 w)) = events w1 @ [EvExec ''ffmpeg'' [''-version'']])
       \<and> (fst (runCommand E ''ffmpeg'' [''-version''] (files w1)) = Exited 0 \<and> ffmpegCheck w1 = None \<longrightarrow>
            (\<exists>w2. events w2 = events w1 @ [EvExec ''ffmpeg'' [''-version'']]
                \<and> download E fl dl id0 w
                     = DownloadComposite E dl (outputFileFlag fl) video (outputQualityFlag fl)
                         (mimetypeFlag fl) w2))"
proof -
  obtain e w2 where c: "checkFFMPEG E w1 = (e, w2)" by (cases "checkFFMPEG E w1") auto
  have d: "download E fl dl id0 w =
             (case e of Some err \<Rightarrow> (Some err, w2)
              | None \<Rightarrow> DownloadComposite E dl (outputFileFlag fl) video (outputQualityFlag fl)
                          (mimetypeFlag fl) w2)"
    using it hd fetch c by (simp add: download_def)
  have fails: "fst (runCommand E ''ffmpeg'' [''-version''] (files w1)) \<noteq> Exited 0 \<longrightarrow>
            fst (download E fl dl id0 w) = Some (Errorf ''please check ffmpegCheck is installed correctly'')
            \<and> events (snd (download E fl dl id0 w)) = events w1 @ [EvExec ''ffmpeg'' [''-version'']]"
  proof
    assume "fst (runCommand E ''ffmpeg'' [''-version''] (files w1)) \<noteq> Exited 0"
    from checkFFMPEG_fails [OF this] c d
    show "fst (download E fl dl id0 w) = Some (Errorf ''please check ffmpegCheck is installed correctly'')
            \<and> events (snd (download E fl dl id0 w)) = events w1 @ [EvExec ''ffmpeg'' [''-version'']]"
      by simp
  qed
  have passes: "fst (runCommand E ''ffmpeg'' [''-version''] (files w1)) = Exited 0 \<and> ffmpegCheck w1 = None \<longrightarrow>
            (\<exists>w2. events w2 = events w1 @ [EvExec ''ffmpeg'' [''-version'']]
                \<and> download E fl dl id0 w
                     = DownloadComposite E dl (outputFileFlag fl) video (outputQualityFlag fl)
                         (mimetypeFlag fl) w2)"
  proof
    assume "fst (runCommand E ''ffmpeg'' [''-version''] (files w1)) = Exited 0 \<and> ffmpegCheck w1 = None"
    then have "fst (runCommand E ''ffmpeg'' [''-version''] (files w1)) = Exited 0" "ffmpegCheck w1 = None"
      by simp_all
    from checkFFMPEG_passes [OF this] c d
    have "events w2 = events w1 @ [EvExec ''ffmpeg'' [''-version'']]"
      "download E fl dl id0 w = DownloadComposite E dl (outputFileFlag fl) video (outputQualityFlag fl)
                         (mimetypeFlag fl) w2"
      by simp_all
    then show "\<exists>w2. events w2 = events w1 @ [EvExec ''ffmpeg'' [''-version'']]
                \<and> download E fl dl id0 w
                     = DownloadComposite E dl (outputFileFlag fl) video (outputQualityFlag fl)
                         (mimetypeFlag fl) w2"
      by blast
  qed
  from fails passes show ?thesis by (rule conjI)
qed

lemma ex_select:
  "getVideoAudioFormats exInClass exQMatch exBefore exVideo ''hd1080'' [] = Inr (exFormat137, exFormat140)"
  by (simp add: getVideoAudioFormats_def videoCandidates_def audioCandidates_def narrowedFormats_def
      firstSorted_def FormatList_Sort_def FormatList_Type_def FormatList_AudioChannels_def
      FormatList_Quality_def exVideo_def exInClass_def exQMatch_def
      exFormat18_def exFormat22_def exFormat137_def exFormat140_def)

lemma ex_stage:
  assumes E_def: "E = exEnv\<lparr>runCommand := rc\<rparr>"
  shows "getVideoAudioFormats (mimeInClass E) (qualityMatches E) (sortsBefore E) exVideo ''hd1080'' []
           = Inr (exFormat137, exFormat140)"
    and "fst (getOutputFile E exDownloader exVideo exFormat137 ''out.mp4'' exWorld) = Inr ''out.mp4''"
    and "createTempResult E (pathDir E ''out.mp4'') ''youtube_*.m4v'' = Inr ''./youtube_1.m4v''"
    and "createTempResult E (pathDir E ''out.mp4'') ''youtube_*.m4a'' = Inr ''./youtube_2.m4a''"
    and "GetStreamContext E exVideo exFormat137 = Inr (exStream, 5)"
    and "finalErr exStream = None"
    and "writeLimit E ''./youtube_1.m4v'' = None"
    and "GetStreamContext E exVideo exFormat140 = Inr (exStream, 5)"
    and "writeLimit E ''./youtube_2.m4a'' = None"
    and "pathDir E ''out.mp4'' = ''.''"
proof -
  show "getVideoAudioFormats (mimeInClass E) (qualityMatches E) (sortsBefore E) exVideo ''hd1080'' []
           = Inr (exFormat137, exFormat140)"
    using ex_select by (simp add: E_def exEnv_def)
  show "fst (getOutputFile E exDownloader exVideo exFormat137 ''out.mp4'' exWorld) = Inr ''out.mp4''"
    by (simp add: getOutputFile_def exDownloader_def)
  show d: "pathDir E ''out.mp4'' = ''.''" by (simp add: E_def exEnv_def exDir_def)
  show "createTempResult E (pathDir E ''out.mp4'') ''youtube_*.m4v'' = Inr ''./youtube_1.m4v''"
    unfolding d by (simp add: E_def exEnv_def exTempName_def)
  show "createTempResult E (pathDir E ''out.mp4'') ''youtube_*.m4a'' = Inr ''./youtube_2.m4a''"
    unfolding d by (simp add: E_def exEnv_def exTempName_def)
  show "GetStreamContext E exVideo exFormat137 = Inr (exStream, 5)" by (simp add: E_def exEnv_def)
  show "GetStreamContext E exVideo exFormat140 = Inr (exStream, 5)" by (simp add: E_def exEnv_def)
  show "finalErr exStream = None" by (simp add: exStream_def)
  show "writeLimit E ''./youtube_1.m4v'' = None" by (simp add: E_def exEnv_def)
  show "writeLimit E ''./youtube_2.m4a'' = None" by (simp add: E_def exEnv_def)
qed

lemma ex_trace:
  "events exWorld @ (if OutputDir exDownloader \<noteq> [] then [EvMkdirAll (OutputDir exDownloader) 493] else [])
     @ [EvCreateTemp ''.'' ''youtube_*.m4v'', EvCreateTemp ''.'' ''youtube_*.m4a'',
        EvGetStream (ID exVideo) (ItagNo exFormat137), EvGetStream (ID exVideo) (ItagNo exFormat140),
        EvExec ''ffmpeg'' (mergeArgs ''./youtube_1.m4v'' ''./youtube_2.m4a'' ''out.mp4''),
        EvRemove ''./youtube_2.m4a'', EvRemove ''./youtube_1.m4v'']
   = [EvCreateTemp ''.'' ''youtube_*.m4v'', EvCreateTemp ''.'' ''youtube_*.m4a'',
      EvGetStream ''abc'' 137, EvGetStream ''abc'' 140,
      EvExec ''ffmpeg'' (mergeArgs ''./youtube_1.m4v'' ''./youtube_2.m4a'' ''out.mp4''),
      EvRemove ''./youtube_2.m4a'', EvRemove ''./youtube_1.m4v'']"
  by (simp add: exWorld_def exDownloader_def exVideo_def exFormat137_def exFormat140_def)




text \<open>
  C6. When \<open>DownloadComposite\<close> returns no error, its effects are exactly these, in
  order: the \<open>os.MkdirAll\<close> of the output directory if there is one, the creation of
  the two temporary files next to the destination, the opening of the video stream and
  of the audio stream, one run of ffmpeg, the two removals. The arguments of ffmpeg are
  \<open>-y\<close>, \<open>-i\<close> and the temporary video path, \<open>-i\<close> and the temporary audio path,
  \<open>-c copy\<close>, \<open>-shortest\<close>, the destination, \<open>-loglevel warning\<close>.
\<close>

theorem composite_invokes_ffmpeg_once:
  assumes ok: "fst (DownloadComposite E dl outputFile v quality mimetype w) = None"
  shows "\<exists>vf af destFile videoFile audioFile.
           getVideoAudioFormats (mimeInClass E) (qualityMatches E) (sortsBefore E) v quality mimetype
             = Inr (vf, af)
         \<and> fst (getOutputFile E dl v vf outputFile w) = Inr destFile
         \<and> createTempResult E (pathDir E destFile) ''youtube_*.m4v'' = Inr videoFile
         \<and> createTempResult E (pathDir E destFile) ''youtube_*.m4a'' = Inr audioFile
         \<and> events (snd (DownloadComposite E dl outputFile v quality mimetype w))
              = events w @ (if OutputDir dl \<noteq> [] then [EvMkdirAll (OutputDir dl) 493] else [])
                @ [EvCreateTemp (pathDir E destFile) ''youtube_*.m4v'',
                   EvCreateTemp (pathDir E destFile) ''youtube_*.m4a'',
                   EvGetStream (ID v) (ItagNo vf), EvGetStream (ID v) (ItagNo af),
                   EvExec ''ffmpeg'' (mergeArgs videoFile audioFile destFile),
                   EvRemove audioFile, EvRemove videoFile]"
proof -
  obtain vf af where sel:
    "getVideoAudioFormats (mimeInClass E) (qualityMatches E) (sortsBefore E) v quality mimetype = Inr (vf, af)"
    using ok
    by (cases "getVideoAudioFormats (mimeInClass E) (qualityMatches E) (sortsBefore E) v quality mimetype")
      (auto simp: DownloadComposite_def)
  obtain r1 w1 where g: "getOutputFile E dl v vf outputFile w = (r1, w1)"
    by (cases "getOutputFile E dl v vf outputFile w") auto
  obtain destFile where dest: "r1 = Inr destFile"
    using ok sel g by (cases r1) (auto simp: DownloadComposite_def)
  have out: "fst (getOutputFile E dl v vf outputFile w) = Inr destFile" using g dest by simp
  obtain videoFile where tv: "createTempResult E (pathDir E destFile) ''youtube_*.m4v'' = Inr videoFile"
    using ok sel g dest
    by (cases "createTempResult E (pathDir E destFile) ''youtube_*.m4v''")
      (auto simp: DownloadComposite_def os_CreateTemp_def Let_def)
  obtain audioFile where ta: "createTempResult E (pathDir E destFile) ''youtube_*.m4a'' = Inr audioFile"
    using ok sel g dest tv
    by (cases "createTempResult E (pathDir E destFile) ''youtube_*.m4a''")
      (auto simp: DownloadComposite_def os_CreateTemp_def Let_def)
  from DownloadComposite_staged [OF sel out tv ta]
  obtain w3 where w3:
    "events w3 = events w @ (if OutputDir dl \<noteq> [] then [EvMkdirAll (OutputDir dl) 493] else [])
                   @ [EvCreateTemp (pathDir E destFile) ''youtube_*.m4v'',
                      EvCreateTemp (pathDir E destFile) ''youtube_*.m4a'']"
    "DownloadComposite E dl outputFile v quality mimetype w
                 = (fst (compositeBody E v vf af videoFile audioFile destFile w3),
                    os_Remove E videoFile (os_Remove E audioFile
                      (snd (compositeBody E v vf af videoFile audioFile destFile w3))))"
    by (elim exE conjE)
  obtain w4 where body: "compositeBody E v vf af videoFile audioFile destFile w3 = (None, w4)"
    using ok w3(2) by (cases "compositeBody E v vf af videoFile audioFile destFile w3") auto
  note b = compositeBody_success [OF body]
  have "events (snd (DownloadComposite E dl outputFile v quality mimetype w))
          = events w4 @ [EvRemove audioFile, EvRemove videoFile]"
    using w3(2) body by (simp add: os_Remove_twice)
  with b w3(1) sel out tv ta show ?thesis by (intro exI conjI) simp_all
qed

theorem composite_invokes_ffmpeg_once_witness:
  "fst (DownloadComposite exEnv exDownloader ''out.mp4'' exVideo ''hd1080'' [] exWorld) = None
   \<and> events (snd (DownloadComposite exEnv exDownloader ''out.mp4'' exVideo ''hd1080'' [] exWorld))
       = [EvCreateTemp ''.'' ''youtube_*.m4v'', EvCreateTemp ''.'' ''youtube_*.m4a'',
          EvGetStream ''abc'' 137, EvGetStream ''abc'' 140,
          EvExec ''ffmpeg'' [''-y'', ''-i'', ''./youtube_1.m4v'', ''-i'', ''./youtube_2.m4a'', ''-c'', ''copy'',
            ''-shortest'', ''out.mp4'', ''-loglevel'', ''warning''],
          EvRemove ''./youtube_2.m4a'', EvRemove ''./youtube_1.m4v'']"
proof -
  have e: "exEnv = exEnv\<lparr>runCommand := \<lambda>name args fs. (Exited 0, fs)\<rparr>" by (simp add: exEnv_def)
  note s = ex_stage [OF e]
  from composite_merge_result [OF s(1) s(2) s(3) s(4) s(5) s(6) s(7) s(8) s(6) s(9)]
  have ok: "fst (DownloadComposite exEnv exDownloader ''out.mp4'' exVideo ''hd1080'' [] exWorld) = None"
    by (auto simp: Cmd_Run_result exEnv_def)
  from composite_invokes_ffmpeg_once [OF ok]
  obtain vf af destFile videoFile audioFile where c:
    "getVideoAudioFormats (mimeInClass exEnv) (qualityMatches exEnv) (sortsBefore exEnv) exVideo ''hd1080'' []
       = Inr (vf, af)"
    "fst (getOutputFile exEnv exDownloader exVideo vf ''out.mp4'' exWorld) = Inr destFile"
    "createTempResult exEnv (pathDir exEnv destFile) ''youtube_*.m4v'' = Inr videoFile"
    "createTempResult exEnv (pathDir exEnv destFile) ''youtube_*.m4a'' = Inr audioFile"
    "events (snd (DownloadComposite exEnv exDownloader ''out.mp4'' exVideo ''hd1080'' [] exWorld))
       = events exWorld @ (if OutputDir exDownloader \<noteq> [] then [EvMkdirAll (OutputDir exDownloader) 493] else [])
         @ [EvCreateTemp (pathDir exEnv destFile) ''youtube_*.m4v'',
            EvCreateTemp (pathDir exEnv destFile) ''youtube_*.m4a'',
            EvGetStream (ID exVideo) (ItagNo vf), EvGetStream (ID exVideo) (ItagNo af),
            EvExec ''ffmpeg'' (mergeArgs videoFile audioFile destFile),
            EvRemove audioFile, EvRemove videoFile]"
    by (elim exE conjE)
  from c(1) s(1) have v: "vf = exFormat137" "af = exFormat140" by simp_all
  from c(2) s(2) v have d: "destFile = ''out.mp4''" by simp
  from c(3) s(3) d have tv: "videoFile = ''./youtube_1.m4v''" by simp
  from c(4) s(4) d have ta: "audioFile = ''./youtube_2.m4a''" by simp
  from c(5) show ?thesis
    unfolding v d tv ta s(10) using ok ex_trace by simp
qed

text \<open>
  C5, as the code has it. First part: take a run of \<open>DownloadComposite\<close> in which
  the formats are selected, the path is resolved, both temporary files are created and
  both streams are delivered. Its effects are the creations, the two stream openings,
  the run of ffmpeg and the removals, in this order, and nothing probes ffmpeg before
  the streams are opened. When ffmpeg exits with a status other than 0 the
  function returns the \<open>*exec.ExitError\<close> with that status; when ffmpeg cannot be started
  it returns the \<open>*exec.Error\<close>, a different error. Second part: the \<open>download\<close> command,
  with no itag and a quality starting with "hd", first has \<open>getVideoWithFormat\<close> get the
  video, then runs \<open>ffmpeg -version\<close>. When that run fails the command returns the
  error of \<open>checkFFMPEG\<close> and does nothing else: no stream is opened. When it succeeds
  the command goes on with \<open>DownloadComposite\<close>.
\<close>

theorem merge_errors_and_probe:
  "(getVideoAudioFormats (mimeInClass E) (qualityMatches E) (sortsBefore E) v quality mimetype = Inr (vf, af)
      \<and> fst (getOutputFile E dl v vf outputFile w) = Inr destFile
      \<and> createTempResult E (pathDir E destFile) ''youtube_*.m4v'' = Inr videoFile
      \<and> createTempResult E (pathDir E destFile) ''youtube_*.m4a'' = Inr audioFile
      \<and> GetStreamContext E v vf = Inr (s1, n1) \<and> finalErr s1 = None \<and> writeLimit E videoFile = None
      \<and> GetStreamContext E v af = Inr (s2, n2) \<and> finalErr s2 = None \<and> writeLimit E audioFile = None
    \<longrightarrow>
      events (snd (DownloadComposite E dl outputFile v quality mimetype w))
         = events w @ (if OutputDir dl \<noteq> [] then [EvMkdirAll (OutputDir dl) 493] else [])
           @ [EvCreateTemp (pathDir E destFile) ''youtube_*.m4v'',
              EvCreateTemp (pathDir E destFile) ''youtube_*.m4a'',
              EvGetStream (ID v) (ItagNo vf), EvGetStream (ID v) (ItagNo af),
              EvExec ''ffmpeg'' (mergeArgs videoFile audioFile destFile),
              EvRemove audioFile, EvRemove videoFile]
      \<and> ((\<forall>fs. fst (runCommand E ''ffmpeg'' (mergeArgs videoFile audioFile destFile) fs) = Exited code)
            \<and> code \<noteq> 0
          \<longrightarrow> fst (DownloadComposite E dl outputFile v quality mimetype w) = Some (ExitError code))
      \<and> ((\<forall>fs. fst (runCommand E ''ffmpeg'' (mergeArgs videoFile audioFile destFile) fs) = NotStarted)
          \<longrightarrow> fst (DownloadComposite E dl outputFile v quality mimetype w) = Some (ExecError ''ffmpeg'')))
   \<and> (itagStringFlag fl = [] \<and> HasPrefix (outputQualityFlag fl) ''hd''
        \<and> getVideoWithFormat E id0 w0 = (Inr (video, format), w1)
    \<longrightarrow>
      (fst (runCommand E ''ffmpeg'' [''-version''] (files w1)) \<noteq> Exited 0 \<longrightarrow>
          fst (download E fl dl0 id0 w0) = Some (Errorf ''please check ffmpegCheck is installed correctly'')
          \<and> events (snd (download E fl dl0 id0 w0)) = events w1 @ [EvExec ''ffmpeg'' [''-version'']])
      \<and> (fst (runCommand E ''ffmpeg'' [''-version''] (files w1)) = Exited 0 \<and> ffmpegCheck w1 = None \<longrightarrow>
          (\<exists>w2. events w2 = events w1 @ [EvExec ''ffmpeg'' [''-version'']]
              \<and> download E fl dl0 id0 w0
                   = DownloadComposite E dl0 (outputFileFlag fl) video (outputQualityFlag fl)
                       (mimetypeFlag fl) w2)))"
  (is "(?A \<longrightarrow> ?B1 \<and> (?H2 \<longrightarrow> ?B2) \<and> (?H3 \<longrightarrow> ?B3))
       \<and> (?C \<longrightarrow> (?H4 \<longrightarrow> ?D1) \<and> (?H5 \<longrightarrow> ?D2))")
proof -
  have part1: "?A \<longrightarrow> ?B1 \<and> (?H2 \<longrightarrow> ?B2) \<and> (?H3 \<longrightarrow> ?B3)"
  proof
    assume a: ?A
    then have sel: "getVideoAudioFormats (mimeInClass E) (qualityMatches E) (sortsBefore E) v quality mimetype = Inr (vf, af)"
      and out: "fst (getOutputFile E dl v vf outputFile w) = Inr destFile"
      and tv: "createTempResult E (pathDir E destFile) ''youtube_*.m4v'' = Inr videoFile"
      and ta: "createTempResult E (pathDir E destFile) ''youtube_*.m4a'' = Inr audioFile"
      and sv: "GetStreamContext E v vf = Inr (s1, n1)" "finalErr s1 = None" "writeLimit E videoFile = None"
      and sa: "GetStreamContext E v af = Inr (s2, n2)" "finalErr s2 = None" "writeLimit E audioFile = None"
      by simp_all
    from composite_merge_result [OF sel out tv ta sv sa]
    obtain w5 where w5:
      "fst (DownloadComposite E dl outputFile v quality mimetype w)
         = fst (Cmd_Run E ''ffmpeg'' (mergeArgs videoFile audioFile destFile) w5)"
      and ev: ?B1
      by (elim exE conjE)
    have exit: "?H2 \<longrightarrow> ?B2" using w5 by (simp add: Cmd_Run_result)
    have missing: "?H3 \<longrightarrow> ?B3" using w5 by (simp add: Cmd_Run_result)
    from ev exit missing show "?B1 \<and> (?H2 \<longrightarrow> ?B2) \<and> (?H3 \<longrightarrow> ?B3)" by blast
  qed
  have part2: "?C \<longrightarrow> (?H4 \<longrightarrow> ?D1) \<and> (?H5 \<longrightarrow> ?D2)"
  proof
    assume b: ?C
    then have it: "itagStringFlag fl = []" and hd: "HasPrefix (outputQualityFlag fl) ''hd''"
      and fetch: "getVideoWithFormat E id0 w0 = (Inr (video, format), w1)" by simp_all
    from download_hd_probe [OF it hd fetch, of dl0]
    show "(?H4 \<longrightarrow> ?D1) \<and> (?H5 \<longrightarrow> ?D2)" .
  qed
  from part1 part2 show ?thesis by (rule conjI)
qed

theorem merge_errors_and_probe_witness:
  "getVideoAudioFormats (mimeInClass exEnvMergeFails) (qualityMatches exEnvMergeFails)
       (sortsBefore exEnvMergeFails) exVideo ''hd1080'' [] = Inr (exFormat137, exFormat140)
   \<and> fst (getOutputFile exEnvMergeFails exDownloader exVideo exFormat137 ''out.mp4'' exWorld) = Inr ''out.mp4''
   \<and> createTempResult exEnvMergeFails (pathDir exEnvMergeFails ''out.mp4'') ''youtube_*.m4v''
        = Inr ''./youtube_1.m4v''
   \<and> createTempResult exEnvMergeFails (pathDir exEnvMergeFails ''out.mp4'') ''youtube_*.m4a''
        = Inr ''./youtube_2.m4a''
   \<and> GetStreamContext exEnvMergeFails exVideo exFormat137 = Inr (exStream, 5)
   \<and> finalErr exStream = None
   \<and> writeLimit exEnvMergeFails ''./youtube_1.m4v'' = None
   \<and> GetStreamContext exEnvMergeFails exVideo exFormat140 = Inr (exStream, 5)
   \<and> writeLimit exEnvMergeFails ''./youtube_2.m4a'' = None
   \<and> (\<forall>fs. fst (runCommand exEnvMergeFails ''ffmpeg''
                  (mergeArgs ''./youtube_1.m4v'' ''./youtube_2.m4a'' ''out.mp4'') fs) = Exited 1)
   \<and> fst (DownloadComposite exEnvMergeFails exDownloader ''out.mp4'' exVideo ''hd1080'' [] exWorld)
        = Some (ExitError 1)
   \<and> (\<forall>fs. fst (runCommand exEnvNoTool ''ffmpeg''
                  (mergeArgs ''./youtube_1.m4v'' ''./youtube_2.m4a'' ''out.mp4'') fs) = NotStarted)
   \<and> fst (DownloadComposite exEnvNoTool exDownloader ''out.mp4'' exVideo ''hd1080'' [] exWorld)
        = Some (ExecError ''ffmpeg'')
   \<and> itagStringFlag exFlags = []
   \<and> HasPrefix (outputQualityFlag exFlags) ''hd''
   \<and> getVideoWithFormat exEnvNoTool ''abc'' exWorld
        = (Inr (exVideo, exFormat18), logEvent (EvFetchVideo ''abc'') exWorld)
   \<and> fst (runCommand exEnvNoTool ''ffmpeg'' [''-version'']
             (files (logEvent (EvFetchVideo ''abc'') exWorld))) \<noteq> Exited 0
   \<and> fst (download exEnvNoTool exFlags exDownloader ''abc'' exWorld)
        = Some (Errorf ''please check ffmpegCheck is installed correctly'')
   \<and> events (snd (download exEnvNoTool exFlags exDownloader ''abc'' exWorld))
        = [EvFetchVideo ''abc'', EvExec ''ffmpeg'' [''-version'']]"
proof -
  note s = ex_stage [OF exEnvMergeFails_def]
  note n = ex_stage [OF exEnvNoTool_def]
  have x1: "\<forall>fs. fst (runCommand exEnvMergeFails ''ffmpeg''
                  (mergeArgs ''./youtube_1.m4v'' ''./youtube_2.m4a'' ''out.mp4'') fs) = Exited 1"
    by (simp add: exEnvMergeFails_def)
  have x2: "\<forall>fs. fst (runCommand exEnvNoTool ''ffmpeg''
                  (mergeArgs ''./youtube_1.m4v'' ''./youtube_2.m4a'' ''out.mp4'') fs) = NotStarted"
    by (simp add: exEnvNoTool_def)
  have c1: "itagStringFlag exFlags = []" by (simp add: exFlags_def)
  have c2: "HasPrefix (outputQualityFlag exFlags) ''hd''" by (simp add: exFlags_def HasPrefix_def)
  have c3: "getVideoWithFormat exEnvNoTool ''abc'' exWorld
        = (Inr (exVideo, exFormat18), logEvent (EvFetchVideo ''abc'') exWorld)"
    by (simp add: exEnvNoTool_def exEnv_def)
  have c4: "fst (runCommand exEnvNoTool ''ffmpeg'' [''-version'']
             (files (logEvent (EvFetchVideo ''abc'') exWorld))) \<noteq> Exited 0"
    by (simp add: exEnvNoTool_def)
  have ev0: "events (logEvent (EvFetchVideo ''abc'') exWorld) = [EvFetchVideo ''abc'']"
    by (simp add: exWorld_def logEvent_def)
  note t1 = merge_errors_and_probe [where E = exEnvMergeFails and dl = exDownloader and v = exVideo
      and quality = "''hd1080''" and mimetype = "[]" and vf = exFormat137 and af = exFormat140
      and outputFile = "''out.mp4''" and w = exWorld and destFile = "''out.mp4''"
      and videoFile = "''./youtube_1.m4v''" and audioFile = "''./youtube_2.m4a''"
      and ?s1.0 = exStream and ?n1.0 = 5 and ?s2.0 = exStream and ?n2.0 = 5 and code = 1]
  from t1 s x1 have r1:
    "fst (DownloadComposite exEnvMergeFails exDownloader ''out.mp4'' exVideo ''hd1080'' [] exWorld)
        = Some (ExitError 1)"
    by simp
  note t2 = merge_errors_and_probe [where E = exEnvNoTool and dl = exDownloader and v = exVideo
      and quality = "''hd1080''" and mimetype = "[]" and vf = exFormat137 and af = exFormat140
      and outputFile = "''out.mp4''" and w = exWorld and destFile = "''out.mp4''"
      and videoFile = "''./youtube_1.m4v''" and audioFile = "''./youtube_2.m4a''"
      and ?s1.0 = exStream and ?n1.0 = 5 and ?s2.0 = exStream and ?n2.0 = 5
      and fl = exFlags and ?id0.0 = "''abc''" and video = exVideo and format = exFormat18
      and ?w0.0 = exWorld and ?w1.0 = "logEvent (EvFetchVideo ''abc'') exWorld"
      and ?dl0.0 = exDownloader]
  from t2 n x2 have r2:
    "fst (DownloadComposite exEnvNoTool exDownloader ''out.mp4'' exVideo ''hd1080'' [] exWorld)
        = Some (ExecError ''ffmpeg'')"
    by simp
  from t2 c1 c2 c3 c4 ev0 have r3:
    "fst (download exEnvNoTool exFlags exDownloader ''abc'' exWorld)
        = Some (Errorf ''please check ffmpegCheck is installed correctly'')"
    "events (snd (download exEnvNoTool exFlags exDownloader ''abc'' exWorld))
        = [EvFetchVideo ''abc'', EvExec ''ffmpeg'' [''-version'']]"
    by simp_all
  show ?thesis
    using s(1) s(2) s(3) s(4) s(5) s(6) s(7) s(8) s(9) x1 r1 x2 r2 c1 c2 c3 c4 r3
    by (intro conjI)
qed

text \<open>
  C5 as the spec states it fails on the probe: called where ffmpeg is absent,
  \<open>DownloadComposite\<close> opens both streams and only then fails to start ffmpeg; no
  effect before the downloads asks whether ffmpeg exists.
\<close>

theorem composite_downloads_before_missing_tool:
  "fst (DownloadComposite exEnvNoTool exDownloader ''out.mp4'' exVideo ''hd1080'' [] exWorld)
      = Some (ExecError ''ffmpeg'')
   \<and> events (snd (DownloadComposite exEnvNoTool exDownloader ''out.mp4'' exVideo ''hd1080'' [] exWorld))
       = [EvCreateTemp ''.'' ''youtube_*.m4v'', EvCreateTemp ''.'' ''youtube_*.m4a'',
          EvGetStream ''abc'' 137, EvGetStream ''abc'' 140,
          EvExec ''ffmpeg'' [''-y'', ''-i'', ''./youtube_1.m4v'', ''-i'', ''./youtube_2.m4a'', ''-c'', ''copy'',
            ''-shortest'', ''out.mp4'', ''-loglevel'', ''warning''],
          EvRemove ''./youtube_2.m4a'', EvRemove ''./youtube_1.m4v'']"
proof -
  note s = ex_stage [OF exEnvNoTool_def]
  from composite_merge_result [OF s(1) s(2) s(3) s(4) s(5) s(6) s(7) s(8) s(6) s(9)]
  show ?thesis
    unfolding s(10) using ex_trace by (auto simp: Cmd_Run_result exEnvNoTool_def)
qed

end
